theory Spec2Isabelle
  imports Main "HOL-Library.Sublist"
begin

section \<open>JavaScript strings and values\<close>

text \<open>
  Strings are lists of 8-bit characters: a character stands for one UTF-16 code unit
  below 256, so the model covers the strings whose characters lie in U+0000 to U+00FF.
  In this range the white space of \<open>\s\<close> and of \<open>trim\<close> is the tab, the line
  feed, the vertical tab, the form feed, the carriage return, the space and the
  no-break space U+00A0; the line terminators are the line feed and the carriage
  return. The white space and the line terminators above U+00FF are not represented.
\<close>

definition isSpace :: "char \<Rightarrow> bool" where
  "isSpace c = (c \<in> set [CHR 0x20, CHR 0x09, CHR 0x0A, CHR 0x0B, CHR 0x0C, CHR 0x0D, CHR 0xA0])"

text \<open>The line terminators that the regular-expression dot does not match.\<close>

definition isLineTerminator :: "char \<Rightarrow> bool" where
  "isLineTerminator c = (c \<in> set [CHR 0x0A, CHR 0x0D])"

text \<open>The character class of the three quote characters of the verifier's patterns.\<close>

definition isQuote :: "char \<Rightarrow> bool" where
  "isQuote c = (c \<in> set [CHR 0x27, CHR 0x22, CHR 0x60])"

definition isUpper :: "char \<Rightarrow> bool" where
  "isUpper c = (c \<in> set ''ABCDEFGHIJKLMNOPQRSTUVWXYZ'')"

definition isAlpha :: "char \<Rightarrow> bool" where
  "isAlpha c = (c \<in> set ''ABCDEFGHIJKLMNOPQRSTUVWXYZabcdefghijklmnopqrstuvwxyz'')"

text \<open>
  \<open>toLowerCase\<close> on one character: the letters A to Z, and the upper-case letters
  U+00C0 to U+00DE of the range (all but the multiplication sign U+00D7), move up by 32.
\<close>

definition upperCaseLetters :: string where
  "upperCaseLetters =
     ''ABCDEFGHIJKLMNOPQRSTUVWXYZ'' @
     [CHR 0xC0, CHR 0xC1, CHR 0xC2, CHR 0xC3, CHR 0xC4, CHR 0xC5, CHR 0xC6, CHR 0xC7,
      CHR 0xC8, CHR 0xC9, CHR 0xCA, CHR 0xCB, CHR 0xCC, CHR 0xCD, CHR 0xCE, CHR 0xCF,
      CHR 0xD0, CHR 0xD1, CHR 0xD2, CHR 0xD3, CHR 0xD4, CHR 0xD5, CHR 0xD6,
      CHR 0xD8, CHR 0xD9, CHR 0xDA, CHR 0xDB, CHR 0xDC, CHR 0xDD, CHR 0xDE]"

definition lowerCaseLetters :: string where
  "lowerCaseLetters =
     ''abcdefghijklmnopqrstuvwxyz'' @
     [CHR 0xE0, CHR 0xE1, CHR 0xE2, CHR 0xE3, CHR 0xE4, CHR 0xE5, CHR 0xE6, CHR 0xE7,
      CHR 0xE8, CHR 0xE9, CHR 0xEA, CHR 0xEB, CHR 0xEC, CHR 0xED, CHR 0xEE, CHR 0xEF,
      CHR 0xF0, CHR 0xF1, CHR 0xF2, CHR 0xF3, CHR 0xF4, CHR 0xF5, CHR 0xF6,
      CHR 0xF8, CHR 0xF9, CHR 0xFA, CHR 0xFB, CHR 0xFC, CHR 0xFD, CHR 0xFE]"

definition lowerChar :: "char \<Rightarrow> char" where
  "lowerChar c =
     (case map_of (zip upperCaseLetters lowerCaseLetters) c of
        Some l \<Rightarrow> l
      | None \<Rightarrow> c)"

definition toLowerCase :: "string \<Rightarrow> string" where
  "toLowerCase s = map lowerChar s"

definition trim :: "string \<Rightarrow> string" where
  "trim s = rev (dropWhile isSpace (rev (dropWhile isSpace s)))"

text \<open>\<open>s.replace(/\s+/g, ' ')\<close>: the flag says that a run of white space is being skipped.\<close>

fun collapseRun :: "bool \<Rightarrow> string \<Rightarrow> string" where
  "collapseRun inRun [] = []"
| "collapseRun inRun (c # s) =
     (if isSpace c then (if inRun then collapseRun True s else CHR 0x20 # collapseRun True s)
      else c # collapseRun False s)"

definition collapseSpaces :: "string \<Rightarrow> string" where
  "collapseSpaces s = collapseRun False s"

text \<open>\<open>s.includes(pat)\<close>.\<close>

fun includesStr :: "string \<Rightarrow> string \<Rightarrow> bool" where
  "includesStr [] pat = (pat = [])"
| "includesStr (c # s) pat = (prefix pat (c # s) \<or> includesStr s pat)"

text \<open>\<open>str.replace(/"/g, '\\"')\<close>.\<close>

definition escapeStr :: "string \<Rightarrow> string" where
  "escapeStr s = concat (map (\<lambda>c. if c = CHR 0x22 then [CHR 0x5C, CHR 0x22] else [c]) s)"

text \<open>\<open>method.replace(/([A-Z])/g, '_$1').toLowerCase()\<close>.\<close>

definition snakeCase :: "string \<Rightarrow> string" where
  "snakeCase s = toLowerCase (concat (map (\<lambda>c. if isUpper c then [CHR ''_'', c] else [c]) s))"

text \<open>\<open>xs.join(sep)\<close>.\<close>

fun join :: "string \<Rightarrow> string list \<Rightarrow> string" where
  "join sep [] = []"
| "join sep [x] = x"
| "join sep (x # y # xs) = x @ sep @ join sep (y # xs)"

text \<open>The decimal numeral of a natural number, as a template literal prints it.\<close>

definition digitChar :: "nat \<Rightarrow> char" where
  "digitChar d = (''0123456789'' ! (d mod 10))"

fun showNatAcc :: "nat \<Rightarrow> nat \<Rightarrow> string \<Rightarrow> string" where
  "showNatAcc 0 n acc = acc"
| "showNatAcc (Suc fuel) n acc =
     (if n < 10 then digitChar n # acc else showNatAcc fuel (n div 10) (digitChar n # acc))"

definition showNat :: "nat \<Rightarrow> string" where
  "showNat n = showNatAcc (Suc n) n []"

text \<open>
  The result of \<open>getAttribute\<close> is a string or \<open>null\<close>: \<open>None\<close> is \<open>null\<close>.
  \<open>truthy\<close> is JavaScript's truthiness of such a value and \<open>orElse\<close> its \<open>||\<close>,
  which yields the right operand whenever the left one is \<open>null\<close> or empty.
\<close>

definition truthy :: "string option \<Rightarrow> bool" where
  "truthy a = (case a of None \<Rightarrow> False | Some s \<Rightarrow> s \<noteq> [])"

definition orElse :: "string option \<Rightarrow> string option \<Rightarrow> string option" where
  "orElse a b = (if truthy a then a else b)"

text \<open>
  A value read from an object literal used as a table: a string, nothing
  (\<open>undefined\<close>, here \<open>Null\<close>), or a member inherited from \<open>Object.prototype\<close>
  when the key happens to name one (\<open>roleMappings['constructor']\<close>).
\<close>

datatype jsval = Null | Str string | Inherited string

definition jsTruthy :: "jsval \<Rightarrow> bool" where
  "jsTruthy v = (case v of Null \<Rightarrow> False | Str s \<Rightarrow> s \<noteq> [] | Inherited k \<Rightarrow> True)"

definition objectPrototypeKeys :: "string list" where
  "objectPrototypeKeys =
     [''constructor'', ''__defineGetter__'', ''__defineSetter__'', ''hasOwnProperty'',
      ''__lookupGetter__'', ''__lookupSetter__'', ''isPrototypeOf'', ''propertyIsEnumerable'',
      ''toString'', ''valueOf'', ''__proto__'', ''toLocaleString'']"

definition lookupTable :: "(string \<times> string) list \<Rightarrow> string \<Rightarrow> jsval" where
  "lookupTable tbl k =
     (case map_of tbl k of
        Some v \<Rightarrow> Str v
      | None \<Rightarrow> if k \<in> set objectPrototypeKeys then Inherited k else Null)"

datatype error = TypeError | SyntaxError | ReferenceError

section \<open>The document tree\<close>

text \<open>
  What the scripts read of an HTML element. \<open>tagName\<close> is as the DOM reports it
  (upper case for HTML elements); \<open>innerText\<close>, \<open>textContent\<close>, the form control's
  \<open>value\<close> (empty when the element has none), whether \<open>offsetParent\<close> is \<open>null\<close>
  and the inline \<open>style.outline\<close> are observations supplied by the browser.
  \<open>cleanText\<close> is what the legacy script reads from its detached copy of the element
  after removing \<open>script\<close> and \<open>style\<close> descendants.
\<close>

record node =
  tagName :: string
  attributes :: "(string \<times> string) list"
  innerText :: string
  textContent :: string
  cleanText :: string
  formValue :: string
  offsetParentNull :: bool
  outline :: string

datatype element = Element (nd: node) (kids: "element list")

text \<open>
  An element is addressed by the child indices from itself up to the root: the head is
  its index among its parent's children, the tail addresses the parent, and \<open>[]\<close> is
  the root element. Node identity (\<open>===\<close>) is equality of addresses.
\<close>

type_synonym path = "nat list"

definition childAt :: "element \<Rightarrow> nat \<Rightarrow> element option" where
  "childAt e i = (if i < length (kids e) then Some (kids e ! i) else None)"

fun subtree :: "element \<Rightarrow> path \<Rightarrow> element option" where
  "subtree doc [] = Some doc"
| "subtree doc (i # p) = (case subtree doc p of None \<Rightarrow> None | Some e \<Rightarrow> childAt e i)"

definition parentElement :: "path \<Rightarrow> path option" where
  "parentElement p = (case p of [] \<Rightarrow> None | i # q \<Rightarrow> Some q)"

text \<open>The element at an address and its descendants, in document order.\<close>

fun pathsFrom :: "path \<Rightarrow> element \<Rightarrow> path list"
  and pathsFromKids :: "path \<Rightarrow> nat \<Rightarrow> element list \<Rightarrow> path list" where
  "pathsFrom p (Element n ks) = p # pathsFromKids p 0 ks"
| "pathsFromKids p i [] = []"
| "pathsFromKids p i (k # ks) = pathsFrom (i # p) k @ pathsFromKids p (Suc i) ks"

text \<open>
  \<open>scope.querySelectorAll('*')\<close>: every element of the document when the scope is the
  document (\<open>None\<close>), the proper descendants of the scope element otherwise.
\<close>

definition allElements :: "element \<Rightarrow> path option \<Rightarrow> path list" where
  "allElements doc scope =
     (case scope of
        None \<Rightarrow> pathsFrom [] doc
      | Some q \<Rightarrow> (case subtree doc q of None \<Rightarrow> [] | Some e \<Rightarrow> tl (pathsFrom q e)))"

text \<open>\<open>parent.children\<close>.\<close>

definition children :: "path \<Rightarrow> element \<Rightarrow> path list" where
  "children q e = map (\<lambda>i. i # q) [0 ..< length (kids e)]"

definition nodeAt :: "element \<Rightarrow> path \<Rightarrow> node option" where
  "nodeAt doc p = map_option nd (subtree doc p)"

definition getAttribute :: "node \<Rightarrow> string \<Rightarrow> string option" where
  "getAttribute el name = map_of (attributes el) name"

text \<open>\<open>element.id\<close> reflects the attribute and is empty without it.\<close>

definition idOf :: "node \<Rightarrow> string" where
  "idOf el = (case getAttribute el ''id'' of None \<Rightarrow> [] | Some v \<Rightarrow> v)"

text \<open>
  \<open>element.classList\<close>: the tokens of the \<open>class\<close> attribute, split at HTML's ASCII
  white space, each token once, in order of first occurrence.
\<close>

definition isAsciiWhitespace :: "char \<Rightarrow> bool" where
  "isAsciiWhitespace c = (c \<in> set [CHR 0x20, CHR 0x09, CHR 0x0A, CHR 0x0C, CHR 0x0D])"

text \<open>The non-empty pieces of a string between separators; \<open>cur\<close> is the piece being read.\<close>

fun tokensAcc :: "(char \<Rightarrow> bool) \<Rightarrow> string \<Rightarrow> string \<Rightarrow> string list" where
  "tokensAcc sep cur [] = (if cur = [] then [] else [rev cur])"
| "tokensAcc sep cur (c # s) =
     (if sep c then (if cur = [] then tokensAcc sep [] s else rev cur # tokensAcc sep [] s)
      else tokensAcc sep (c # cur) s)"

fun firstOccurrences :: "string list \<Rightarrow> string list \<Rightarrow> string list" where
  "firstOccurrences seen [] = []"
| "firstOccurrences seen (x # xs) =
     (if x \<in> set seen then firstOccurrences seen xs else x # firstOccurrences (x # seen) xs)"

definition classList :: "node \<Rightarrow> string list" where
  "classList el =
     (case getAttribute el ''class'' of
        None \<Rightarrow> []
      | Some v \<Rightarrow> firstOccurrences [] (tokensAcc isAsciiWhitespace [] v))"

section \<open>Introspection (content.js)\<close>

definition roleMappings :: "(string \<times> string) list" where
  "roleMappings =
     [(''a'', ''link''), (''area'', ''link''), (''button'', ''button''),
      (''h1'', ''heading''), (''h2'', ''heading''), (''h3'', ''heading''),
      (''h4'', ''heading''), (''h5'', ''heading''), (''h6'', ''heading''),
      (''img'', ''img''), (''textarea'', ''textbox''), (''select'', ''combobox''),
      (''li'', ''listitem''), (''ul'', ''list''), (''ol'', ''list''),
      (''nav'', ''navigation''), (''form'', ''form''), (''dialog'', ''dialog''),
      (''table'', ''table''), (''tr'', ''row''), (''td'', ''cell''), (''th'', ''columnheader''),
      (''thead'', ''rowgroup''), (''tbody'', ''rowgroup''), (''tfoot'', ''rowgroup''),
      (''fieldset'', ''group''), (''option'', ''option''), (''optgroup'', ''group''),
      (''progress'', ''progressbar''), (''meter'', ''progressbar''),
      (''article'', ''article''), (''aside'', ''complementary''), (''footer'', ''contentinfo''),
      (''header'', ''banner''), (''main'', ''main''), (''section'', ''region''),
      (''summary'', ''button''), (''details'', ''group'')]"

definition inputTypeRoles :: "(string \<times> string) list" where
  "inputTypeRoles =
     [(''button'', ''button''), (''submit'', ''button''), (''reset'', ''button''),
      (''checkbox'', ''checkbox''), (''radio'', ''radio''),
      (''text'', ''textbox''), (''email'', ''textbox''), (''password'', ''textbox''),
      (''search'', ''textbox''), (''tel'', ''textbox''), (''url'', ''textbox''),
      (''number'', ''spinbutton''), (''range'', ''slider''),
      (''date'', ''textbox''), (''time'', ''textbox''), (''datetime-local'', ''textbox'')]"

text \<open>
  \<open>getImplicitRole\<close>: the explicit \<open>role\<close> attribute when it is non-empty, else the
  tag table, else for \<open>input\<close> the type table with \<open>textbox\<close> as default, else
  \<open>null\<close>. A missing \<open>type\<close> attribute is looked up as the key \<open>null\<close>.
\<close>

definition getImplicitRole :: "node \<Rightarrow> jsval" where
  "getImplicitRole el =
     (let tag = toLowerCase (tagName el);
          type = getAttribute el ''type'';
          explicitRole = getAttribute el ''role''
      in case (if truthy explicitRole then explicitRole else None) of
           Some r \<Rightarrow> Str r
         | None \<Rightarrow>
             if jsTruthy (lookupTable roleMappings tag) then lookupTable roleMappings tag
             else if tag = ''input'' then
               (let r = lookupTable inputTypeRoles (case type of None \<Rightarrow> ''null'' | Some t \<Rightarrow> t)
                in if jsTruthy r then r else Str ''textbox'')
             else Null)"

text \<open>
  \<open>document.querySelector('label[for="ID"]')\<close>: the first element in document order
  that is a \<open>label\<close> whose \<open>for\<close> attribute is the id.
\<close>

definition labelFor :: "element \<Rightarrow> string \<Rightarrow> node option" where
  "labelFor doc ident =
     find (\<lambda>n. toLowerCase (tagName n) = ''label'' \<and> getAttribute n ''for'' = Some ident)
       (map nd (List.map_filter (subtree doc) (allElements doc None)))"

definition getAccessibleName :: "element \<Rightarrow> node \<Rightarrow> string" where
  "getAccessibleName doc el =
     (let ariaLabel = getAttribute el ''aria-label'';
          label = (if idOf el \<noteq> [] then labelFor doc (idOf el) else None);
          tag = toLowerCase (tagName el);
          type = getAttribute el ''type'';
          altText = getAttribute el ''alt'';
          text = collapseSpaces (trim (innerText el));
          title = getAttribute el ''title''
      in case (if truthy ariaLabel then ariaLabel else None) of
           Some a \<Rightarrow> trim a
         | None \<Rightarrow>
            (case label of
               Some l \<Rightarrow> trim (if innerText l \<noteq> [] then innerText l else textContent l)
             | None \<Rightarrow>
                 if tag = ''input'' \<and> type \<in> set [Some ''submit'', Some ''button'', Some ''reset'']
                    \<and> formValue el \<noteq> []
                 then trim (formValue el)
                 else if tag = ''img'' \<and> truthy altText then trim (case altText of Some a \<Rightarrow> a | None \<Rightarrow> [])
                 else if text \<noteq> [] \<and> length text < 120 then text
                 else (case (if truthy title then title else None) of
                         Some t \<Rightarrow> trim t
                       | None \<Rightarrow> [])))"

section \<open>The selector engine of the browser\<close>

text \<open>
  \<open>querySelectorAll\<close> and \<open>matches\<close> belong to the browser. They are parameters of
  the model: \<open>querySelectorAll eng doc scope sel\<close> is the list of matches below the
  scope (\<open>None\<close> is the document), \<open>matches eng doc p sel\<close> whether the element at
  \<open>p\<close> matches, and \<open>None\<close> says that the engine raised a \<open>SyntaxError\<close> for the
  selector text.
\<close>

record engine =
  querySelectorAll :: "element \<Rightarrow> path option \<Rightarrow> string \<Rightarrow> path list option"
  matches :: "element \<Rightarrow> path \<Rightarrow> string \<Rightarrow> bool option"

section \<open>Locator synthesis (content.js)\<close>

datatype optval = OBool bool | OStr string

text \<open>
  \<open>formatLocator\<close> of \<open>generateBestLocator\<close>. The options are the entries of the
  options object in insertion order. The value is escaped with \<open>value.replace\<close>,
  which raises a \<open>TypeError\<close> when the value is not a string.
\<close>

definition formatOption :: "bool \<Rightarrow> string \<times> optval \<Rightarrow> string" where
  \<open>formatOption isPytest kv =
     (case kv of
        (k, OBool b) \<Rightarrow>
          (if isPytest then k @ ''='' @ (if b then ''True'' else ''False'')
           else k @ '': '' @ (if b then ''true'' else ''false''))
      | (k, OStr v) \<Rightarrow>
          (if isPytest then k @ ''="'' @ escapeStr v @ ''"''
           else k @ '': "'' @ escapeStr v @ ''"''))\<close>

definition formatLocator :: "string \<Rightarrow> string \<Rightarrow> jsval \<Rightarrow> (string \<times> optval) list option \<Rightarrow> error + string" where
  \<open>formatLocator framework method val options =
     (let isPytest = (framework = ''pytest'');
          methodName = (if isPytest then snakeCase method else method)
      in case val of
           Str v \<Rightarrow>
             (let formattedValue = ''"'' @ escapeStr v @ ''"'' in
              case options of
                None \<Rightarrow> Inr (''page.'' @ methodName @ ''('' @ formattedValue @ '')'')
              | Some opts \<Rightarrow>
                  (let optionsStr =
                     (if isPytest then join '', '' (map (formatOption True) opts)
                      else ''{ '' @ join '', '' (map (formatOption False) opts) @ '' }'')
                   in Inr (''page.'' @ methodName @ ''('' @ formattedValue @ '', '' @ optionsStr @ '')'')))
         | Null \<Rightarrow> Inl TypeError
         | Inherited k \<Rightarrow> Inl TypeError)\<close>

text \<open>\<open>locator.replace(/^page\./, '')\<close>.\<close>

definition stripPage :: "string \<Rightarrow> string" where
  "stripPage s = (if prefix ''page.'' s then drop 5 s else s)"

text \<open>
  \<open>isLocatorUniqueInScope\<close>: only \<open>getByRole\<close> is checked; the elements of the scope
  whose role is the value must be the target alone.
\<close>

definition isLocatorUniqueInScope :: "element \<Rightarrow> string \<Rightarrow> jsval \<Rightarrow> path \<Rightarrow> path option \<Rightarrow> bool" where
  "isLocatorUniqueInScope doc locator val targetElement scope =
     (if locator = ''getByRole'' then
        (let elements = filter (\<lambda>q. map_option getImplicitRole (nodeAt doc q) = Some val)
                          (allElements doc scope)
         in elements = [targetElement])
      else False)"

text \<open>
  \<open>getRelativeCSS(element, parent)\<close>. \<open>parent\<close> is \<open>None\<close> when the caller passes
  \<open>null\<close>, and reading \<open>parent.children\<close> then raises a \<open>TypeError\<close>. The index is
  \<open>indexOf(element) + 1\<close>, which is 0 when the element is not among the matching
  children.
\<close>

definition isStableClass :: "string \<Rightarrow> bool" where
  "isStableClass cls =
     (cls \<noteq> [] \<and> \<not> includesStr cls '':'' \<and> \<not> includesStr cls ''['' \<and> length cls > 2)"

fun indexOfPlus1 :: "path list \<Rightarrow> path \<Rightarrow> nat" where
  "indexOfPlus1 [] x = 0"
| "indexOfPlus1 (y # ys) x =
     (if y = x then 1 else (case indexOfPlus1 ys x of 0 \<Rightarrow> 0 | Suc k \<Rightarrow> Suc (Suc k)))"

definition getRelativeCSS :: "engine \<Rightarrow> element \<Rightarrow> path \<Rightarrow> path option \<Rightarrow> error + string" where
  "getRelativeCSS eng doc p parent =
     (case nodeAt doc p of
        None \<Rightarrow> Inl TypeError
      | Some el \<Rightarrow>
         (let stableClasses = filter isStableClass (classList el);
              selector = toLowerCase (tagName el) @
                 (if stableClasses \<noteq> [] then ''.'' @ join ''.'' stableClasses else [])
          in case (case parent of None \<Rightarrow> None | Some q \<Rightarrow> map_option (children q) (subtree doc q)) of
               None \<Rightarrow> Inl TypeError
             | Some siblings \<Rightarrow>
                (case those (map (\<lambda>s. matches eng doc s selector) siblings) of
                   None \<Rightarrow> Inl SyntaxError
                 | Some flags \<Rightarrow>
                    (let elementsWithSameSelector = map fst (filter snd (zip siblings flags))
                     in if length elementsWithSameSelector > 1
                        then Inr (selector @ '':nth-of-type(''
                                    @ showNat (indexOfPlus1 elementsWithSameSelector p) @ '')'')
                        else Inr selector))))"

text \<open>
  The ancestors that the chaining loop can visit: at most four, nearest first, up to
  but not including the first one whose tag name is \<open>BODY\<close>.
\<close>

fun ancestors :: "path \<Rightarrow> path list" where
  "ancestors [] = []"
| "ancestors (i # q) = q # ancestors q"

definition chainAncestors :: "element \<Rightarrow> path \<Rightarrow> path list" where
  "chainAncestors doc p =
     takeWhile (\<lambda>q. case nodeAt doc q of None \<Rightarrow> False | Some n \<Rightarrow> tagName n \<noteq> ''BODY'')
       (take 4 (ancestors p))"

text \<open>
  The body of the chaining loop, run over the visited ancestors in order, each paired
  with the outcome of \<open>generateBestLocator\<close> on it. \<open>Some\<close> is a \<open>return\<close> or a
  raised error inside the loop, \<open>None\<close> says that the loop ran to its end.
\<close>

text \<open>
  The test that the loop applies to the ancestor's locator:
  \<open>parentLocator && !parentLocator.includes('locator(') && !parentLocator.includes('WARNING')\<close>.
\<close>

definition isStableLocator :: "string \<Rightarrow> bool" where
  "isStableLocator parentLocator =
     (parentLocator \<noteq> [] \<and> \<not> includesStr parentLocator ''locator(''
        \<and> \<not> includesStr parentLocator ''WARNING'')"

fun chainLoop :: "engine \<Rightarrow> element \<Rightarrow> path \<Rightarrow> string \<Rightarrow> jsval \<Rightarrow> (path \<times> (error + string)) list \<Rightarrow> (error + string) option" where
  \<open>chainLoop eng doc p framework role [] = None\<close>
| \<open>chainLoop eng doc p framework role ((q, r) # rest) =
     (case r of
        Inl e \<Rightarrow> Some (Inl e)
      | Inr parentLocator \<Rightarrow>
          if isStableLocator parentLocator
          then
            (if jsTruthy role \<and> isLocatorUniqueInScope doc ''getByRole'' role p (Some q)
             then (case formatLocator framework ''getByRole'' role None of
                     Inl e \<Rightarrow> Some (Inl e)
                   | Inr l \<Rightarrow> Some (Inr (parentLocator @ ''.'' @ stripPage l)))
             else (case getRelativeCSS eng doc p (Some q) of
                     Inl e \<Rightarrow> Some (Inl e)
                   | Inr relativeCSS \<Rightarrow>
                       (case querySelectorAll eng doc (Some q) relativeCSS of
                          None \<Rightarrow> Some (Inl SyntaxError)
                        | Some found \<Rightarrow>
                            if length found = 1
                            then Some (Inr (parentLocator @ ''.'' @ ''locator("''
                                              @ escapeStr relativeCSS @ ''")''))
                            else chainLoop eng doc p framework role rest)))
          else chainLoop eng doc p framework role rest)\<close>

definition testIdOf :: "node \<Rightarrow> string option" where
  "testIdOf el =
     orElse (orElse (getAttribute el ''data-testid'') (getAttribute el ''data-qa''))
       (getAttribute el ''data-test'')"

definition fallbackComment :: "string \<Rightarrow> string" where
  "fallbackComment framework =
     (if framework = ''pytest''
      then ''# WARNING: CSS selector fallback. Consider adding a data-testid.''
      else ''// WARNING: CSS selector fallback. Consider adding a data-testid.'')"

text \<open>
  \<open>generateBestLocator(element, framework)\<close>. An address that names no element of
  the document stands for \<open>null\<close>, on which the first property access raises.
\<close>

function generateBestLocator :: "engine \<Rightarrow> element \<Rightarrow> path \<Rightarrow> string \<Rightarrow> error + string" where
  \<open>generateBestLocator eng doc p framework =
     (case nodeAt doc p of
        None \<Rightarrow> Inl TypeError
      | Some el \<Rightarrow>
         (let testId = testIdOf el;
              role = getImplicitRole el;
              accName = getAccessibleName doc el;
              placeholder = getAttribute el ''placeholder'';
              altText = getAttribute el ''alt''
          in case (if truthy testId then testId else None) of
               Some t \<Rightarrow> formatLocator framework ''getByTestId'' (Str t) None
             | None \<Rightarrow>
               if jsTruthy role \<and> accName \<noteq> []
               then formatLocator framework ''getByRole'' role
                      (Some [(''name'', OStr accName), (''exact'', OBool True)])
               else (case (if truthy placeholder then placeholder else None) of
                 Some ph \<Rightarrow> formatLocator framework ''getByPlaceholder'' (Str ph) (Some [(''exact'', OBool True)])
               | None \<Rightarrow>
                 (case (if truthy altText then altText else None) of
                   Some a \<Rightarrow> formatLocator framework ''getByAltText'' (Str a) (Some [(''exact'', OBool True)])
                 | None \<Rightarrow>
                   if accName \<noteq> []
                   then formatLocator framework ''getByText'' (Str accName) (Some [(''exact'', OBool True)])
                   else if jsTruthy role \<and> isLocatorUniqueInScope doc ''getByRole'' role p None
                   then formatLocator framework ''getByRole'' role None
                   else
                     (case chainLoop eng doc p framework role
                             (map (\<lambda>q. (q, generateBestLocator eng doc q framework))
                                (chainAncestors doc p)) of
                        Some r \<Rightarrow> r
                      | None \<Rightarrow>
                         (case getRelativeCSS eng doc p (parentElement p) of
                            Inl e \<Rightarrow> Inl e
                          | Inr cssSelector \<Rightarrow>
                              Inr (''page.locator("'' @ escapeStr cssSelector @ ''") ''
                                     @ fallbackComment framework)))))))\<close>
  by pat_completeness auto
termination
proof (relation "measure (\<lambda>(eng, doc, p, framework). length p)")
  show "wf (measure (\<lambda>(eng, doc, p, framework). length p))"
    by simp
next
  fix eng :: engine and doc :: element and p q :: path and framework :: string
  assume visited: "q \<in> set (chainAncestors doc p)"
  have shorter: "a \<in> set (ancestors b) \<Longrightarrow> length a < length b" for a b :: path
    by (induction b) auto
  from visited have "q \<in> set (ancestors p)"
    unfolding chainAncestors_def by (meson in_set_takeD set_takeWhileD)
  then have "length q < length p"
    by (rule shorter)
  then show "((eng, doc, q, framework), (eng, doc, p, framework))
               \<in> measure (\<lambda>(eng, doc, p, framework). length p)"
    by simp
qed

declare generateBestLocator.simps [simp del]

section \<open>The selector verifier (content.js)\<close>

text \<open>
  The four regular expressions of \<open>findAndHighlight\<close>, each as the function that
  \<open>String.prototype.match\<close> computes for it: the match anchored at the start of a
  string, and the leftmost match by trying every start in turn.
\<close>

fun firstMatch :: "(string \<Rightarrow> 'a option) \<Rightarrow> string \<Rightarrow> 'a option" where
  "firstMatch f [] = f []"
| "firstMatch f (c # s) = (case f (c # s) of Some m \<Rightarrow> Some m | None \<Rightarrow> firstMatch f s)"

text \<open>
  \<open>/(getBy[A-Za-z]+)\s*\((.*)\)/\<close>: the greedy dot runs to the last closing
  parenthesis before the first line terminator. The result is groups 1 and 2.
\<close>

definition matchGetByAt :: "string \<Rightarrow> (string \<times> string) option" where
  "matchGetByAt s =
     (if prefix ''getBy'' s then
        (let letters = takeWhile isAlpha (drop 5 s);
             rest = dropWhile isSpace (dropWhile isAlpha (drop 5 s))
         in if letters = [] then None
            else (case rest of
                    [] \<Rightarrow> None
                  | c # r \<Rightarrow>
                      if c = CHR ''('' then
                        (let line = takeWhile (\<lambda>x. \<not> isLineTerminator x) r
                         in if CHR '')'' \<in> set line
                            then Some (''getBy'' @ letters,
                                       rev (tl (dropWhile (\<lambda>x. x \<noteq> CHR '')'') (rev line))))
                            else None)
                      else None))
      else None)"

definition matchGetBy :: "string \<Rightarrow> (string \<times> string) option" where
  "matchGetBy s = firstMatch matchGetByAt s"

text \<open>
  \<open>/locator\s*\(\s*(['"`])(.*?)\1\s*\)/\<close>: the lazy dot stops at the first repetition
  of the opening quote that is followed by optional white space and a closing
  parenthesis. The result is group 2.
\<close>

definition closesParen :: "string \<Rightarrow> bool" where
  "closesParen r = (case dropWhile isSpace r of [] \<Rightarrow> False | d # r' \<Rightarrow> d = CHR '')'')"

fun lazyBody :: "char \<Rightarrow> string \<Rightarrow> string \<Rightarrow> string option" where
  "lazyBody q acc [] = None"
| "lazyBody q acc (c # r) =
     (if c = q \<and> closesParen r then Some (rev acc)
      else if isLineTerminator c then None
      else lazyBody q (c # acc) r)"

definition matchLocatorAt :: "string \<Rightarrow> string option" where
  "matchLocatorAt s =
     (if prefix ''locator'' s then
        (case dropWhile isSpace (drop 7 s) of
           [] \<Rightarrow> None
         | c # r \<Rightarrow>
             if c = CHR ''('' then
               (case dropWhile isSpace r of
                  [] \<Rightarrow> None
                | q # r2 \<Rightarrow> if isQuote q then lazyBody q [] r2 else None)
             else None)
      else None)"

definition matchLocator :: "string \<Rightarrow> string option" where
  "matchLocator s = firstMatch matchLocatorAt s"

text \<open>\<open>/['"`](.*?)['"`]/\<close>: from a quote to the next quote of any kind. The result is group 1.\<close>

definition matchQuotedAt :: "string \<Rightarrow> string option" where
  "matchQuotedAt s =
     (case s of
        [] \<Rightarrow> None
      | c # r \<Rightarrow>
          if isQuote c then
            (case dropWhile (\<lambda>x. \<not> isQuote x \<and> \<not> isLineTerminator x) r of
               [] \<Rightarrow> None
             | d # r' \<Rightarrow>
                 if isQuote d then Some (takeWhile (\<lambda>x. \<not> isQuote x \<and> \<not> isLineTerminator x) r)
                 else None)
          else None)"

definition matchQuoted :: "string \<Rightarrow> string option" where
  "matchQuoted s = firstMatch matchQuotedAt s"

text \<open>\<open>/name\s*:\s*['"`](.*?)['"`]/\<close>. The result is group 1.\<close>

definition matchNameAt :: "string \<Rightarrow> string option" where
  "matchNameAt s =
     (if prefix ''name'' s then
        (case dropWhile isSpace (drop 4 s) of
           [] \<Rightarrow> None
         | c # r \<Rightarrow> if c = CHR '':'' then matchQuotedAt (dropWhile isSpace r) else None)
      else None)"

definition matchName :: "string \<Rightarrow> string option" where
  "matchName s = firstMatch matchNameAt s"

text \<open>
  The callback that \<open>findAndHighlight\<close> filters the visible elements with: the
  \<open>switch\<close> over the method name.
\<close>

definition matcherAccepts :: "element \<Rightarrow> string \<Rightarrow> string \<Rightarrow> string \<Rightarrow> node \<Rightarrow> bool" where
  "matcherAccepts doc method val rawArgs el =
     (if method = ''getByRole'' then
        (case matchName rawArgs of
           Some nm \<Rightarrow> getImplicitRole el = Str val \<and> includesStr (getAccessibleName doc el) nm
         | None \<Rightarrow> getImplicitRole el = Str val)
      else if method = ''getByText'' then
        includesStr (trim (if innerText el \<noteq> [] then innerText el else textContent el)) val
      else if method = ''getByLabel'' then includesStr (getAccessibleName doc el) val
      else if method = ''getByPlaceholder'' then getAttribute el ''placeholder'' = Some val
      else if method = ''getByAltText'' then getAttribute el ''alt'' = Some val
      else if method = ''getByTitle'' then getAttribute el ''title'' = Some val
      else if method = ''getByTestId'' then testIdOf el = Some val
      else False)"

text \<open>The marker attribute and the outline, cleared from and set on elements.\<close>

definition removeAttribute :: "string \<Rightarrow> node \<Rightarrow> node" where
  "removeAttribute name el = el\<lparr>attributes := filter (\<lambda>kv. fst kv \<noteq> name) (attributes el)\<rparr>"

definition setAttribute :: "string \<Rightarrow> string \<Rightarrow> node \<Rightarrow> node" where
  "setAttribute name v el =
     el\<lparr>attributes := filter (\<lambda>kv. fst kv \<noteq> name) (attributes el) @ [(name, v)]\<rparr>"

definition clearHighlight :: "node \<Rightarrow> node" where
  "clearHighlight el =
     (case getAttribute el ''data-playwright-verifier-highlight'' of
        None \<Rightarrow> el
      | Some v \<Rightarrow> removeAttribute ''data-playwright-verifier-highlight'' (el\<lparr>outline := []\<rparr>))"

definition highlight :: "node \<Rightarrow> node" where
  "highlight el =
     setAttribute ''data-playwright-verifier-highlight'' ''true''
       (el\<lparr>outline := ''3px solid #ff4757''\<rparr>)"

fun updateNodes :: "(path \<Rightarrow> node \<Rightarrow> node) \<Rightarrow> path \<Rightarrow> element \<Rightarrow> element"
  and updateKids :: "(path \<Rightarrow> node \<Rightarrow> node) \<Rightarrow> path \<Rightarrow> nat \<Rightarrow> element list \<Rightarrow> element list" where
  "updateNodes f p (Element n ks) = Element (f p n) (updateKids f p 0 ks)"
| "updateKids f p i [] = []"
| "updateKids f p i (k # ks) = updateNodes f (i # p) k # updateKids f p (Suc i) ks"

definition clearHighlights :: "element \<Rightarrow> element" where
  "clearHighlights doc = updateNodes (\<lambda>p. clearHighlight) [] doc"

definition highlightAll :: "path list \<Rightarrow> element \<Rightarrow> element" where
  "highlightAll found doc = updateNodes (\<lambda>p n. if p \<in> set found then highlight n else n) [] doc"

definition visibleElements :: "element \<Rightarrow> path list" where
  "visibleElements doc =
     filter (\<lambda>p. case nodeAt doc p of None \<Rightarrow> False | Some n \<Rightarrow> \<not> offsetParentNull n)
       (allElements doc None)"

text \<open>
  \<open>findElements\<close> is the part of \<open>findAndHighlight\<close> between clearing the old
  markers and setting the new ones; it works on the cleared document. Only the first
  \<open>querySelectorAll\<close> is inside the \<open>try\<close>.
\<close>

definition findElements :: "engine \<Rightarrow> element \<Rightarrow> string \<Rightarrow> error + path list" where
  "findElements eng doc locatorString =
     (let cssElements = (case querySelectorAll eng doc None locatorString of None \<Rightarrow> [] | Some es \<Rightarrow> es);
          foundElements =
            (if length cssElements > 0 \<and> \<not> includesStr locatorString ''getBy'' then cssElements else [])
      in if length foundElements = 0 then
           (case matchLocator locatorString of
              Some css \<Rightarrow>
                (case querySelectorAll eng doc None css of
                   None \<Rightarrow> Inl SyntaxError
                 | Some es \<Rightarrow> Inr es)
            | None \<Rightarrow>
                (case matchGetBy locatorString of
                   None \<Rightarrow> Inr []
                 | Some (method, args) \<Rightarrow>
                     (case matchQuoted (trim args) of
                        None \<Rightarrow> Inr []
                      | Some val \<Rightarrow>
                          Inr (filter (\<lambda>p. case nodeAt doc p of
                                             None \<Rightarrow> False
                                           | Some el \<Rightarrow> matcherAccepts doc method val (trim args) el)
                                 (visibleElements doc)))))
         else Inr foundElements)"

text \<open>
  \<open>findAndHighlight(locatorString)\<close>: the document as the call leaves it, and the
  returned count or the error that escapes.
\<close>

definition findAndHighlight :: "engine \<Rightarrow> element \<Rightarrow> string \<Rightarrow> element \<times> (error + nat)" where
  "findAndHighlight eng doc locatorString =
     (let cleared = clearHighlights doc
      in case findElements eng cleared locatorString of
           Inl e \<Rightarrow> (cleared, Inl e)
         | Inr foundElements \<Rightarrow> (highlightAll foundElements cleared, Inr (length foundElements)))"

text \<open>
  \<open>highlightElements(selector)\<close> of the earlier popup script: the whole query is
  inside the \<open>try\<close>, and an invalid selector yields 0.
\<close>

definition clearCheckerHighlight :: "node \<Rightarrow> node" where
  "clearCheckerHighlight el =
     (case getAttribute el ''data-locator-checker-highlight'' of
        None \<Rightarrow> el
      | Some v \<Rightarrow> removeAttribute ''data-locator-checker-highlight'' (el\<lparr>outline := []\<rparr>))"

definition highlightElements :: "engine \<Rightarrow> element \<Rightarrow> string \<Rightarrow> element \<times> nat" where
  "highlightElements eng doc selector =
     (let cleared = updateNodes (\<lambda>p. clearCheckerHighlight) [] doc
      in case querySelectorAll eng cleared None selector of
           None \<Rightarrow> (cleared, 0)
         | Some elements \<Rightarrow>
             (updateNodes (\<lambda>p n. if p \<in> set elements
                                  then setAttribute ''data-locator-checker-highlight'' ''true''
                                         (n\<lparr>outline := ''3px solid #ff4757''\<rparr>)
                                  else n) [] cleared,
              length elements))"

section \<open>The uniqueness evaluator (legacy content script)\<close>

text \<open>
  The earlier content script has its own role and name functions and checks a
  candidate locator with \<open>validatePlaywrightLocatorUniqueness\<close>.
\<close>

definition getImplicitRole_legacy :: "node \<Rightarrow> string option" where
  "getImplicitRole_legacy el =
     (let tag = toLowerCase (tagName el);
          type = getAttribute el ''type'';
          role = getAttribute el ''role''
      in if truthy role then role
         else if tag = ''button'' then Some ''button''
         else if tag = ''a'' then Some ''link''
         else if tag = ''img'' then Some ''img''
         else if tag = ''textarea'' then Some ''textbox''
         else if tag = ''select'' then Some ''combobox''
         else if tag = ''input'' then
           (if type \<in> set [Some ''button'', Some ''submit'', Some ''reset''] then Some ''button''
            else if type = Some ''checkbox'' then Some ''checkbox''
            else if type = Some ''radio'' then Some ''radio''
            else if type \<in> set [Some ''text'', Some ''email'', Some ''password'', Some ''search'',
                                 Some ''tel'', Some ''url'', Some ''number'', Some ''date'',
                                 Some ''range'', Some ''color'']
            then Some ''textbox''
            else None)
         else if tag \<in> set [''h1'', ''h2'', ''h3'', ''h4'', ''h5'', ''h6''] then Some ''heading''
         else if tag = ''li'' then Some ''listitem''
         else if tag \<in> set [''ul'', ''ol''] then Some ''list''
         else if tag = ''nav'' then Some ''navigation''
         else if tag = ''form'' then Some ''form''
         else if tag = ''dialog'' then Some ''dialog''
         else if tag = ''menu'' then Some ''menu''
         else if tag = ''menuitem'' then Some ''menuitem''
         else if tag = ''tab'' then Some ''tab''
         else if tag = ''table'' then Some ''table''
         else if tag \<in> set [''th'', ''td''] then Some ''cell''
         else if tag = ''tr'' then Some ''row''
         else if tag = ''fieldset'' then Some ''group''
         else if tag = ''option'' then Some ''option''
         else if tag \<in> set [''meter'', ''progress''] then Some ''progressbar''
         else if tag = ''article'' then Some ''article''
         else if tag = ''aside'' then Some ''complementary''
         else if tag = ''footer'' then Some ''contentinfo''
         else if tag = ''header'' then Some ''banner''
         else if tag = ''main'' then Some ''main''
         else if tag = ''section'' then Some ''region''
         else if tag = ''output'' then Some ''status''
         else if tag = ''summary'' then Some ''button''
         else if tag = ''datalist'' then Some ''listbox''
         else None)"

text \<open>\<open>document.getElementById(id)\<close>: the first element in document order with that id.\<close>

definition getElementById :: "element \<Rightarrow> string \<Rightarrow> node option" where
  "getElementById doc ident =
     find (\<lambda>n. getAttribute n ''id'' = Some ident)
       (map nd (List.map_filter (subtree doc) (allElements doc None)))"

text \<open>\<open>element.hidden\<close> reflects the presence of the attribute.\<close>

definition hidden :: "node \<Rightarrow> bool" where
  "hidden el = (getAttribute el ''hidden'' \<noteq> None)"

definition textOf :: "node \<Rightarrow> string" where
  "textOf el = (if innerText el \<noteq> [] then innerText el else textContent el)"

definition getAccessibleName_legacy :: "element \<Rightarrow> node \<Rightarrow> string" where
  "getAccessibleName_legacy doc el =
     (let ariaLabel = getAttribute el ''aria-label'';
          ariaLabelledBy = getAttribute el ''aria-labelledby'';
          labelTexts =
            filter (\<lambda>t. t \<noteq> [])
              (map (\<lambda>i. case getElementById doc i of None \<Rightarrow> [] | Some l \<Rightarrow> trim (textOf l))
                 (tokensAcc isSpace [] (case ariaLabelledBy of None \<Rightarrow> [] | Some v \<Rightarrow> v)));
          label = (if idOf el \<noteq> [] then labelFor doc (idOf el) else None);
          tag = toLowerCase (tagName el);
          type = getAttribute el ''type'';
          altText = getAttribute el ''alt'';
          title = getAttribute el ''title''
      in case (if truthy ariaLabel then ariaLabel else None) of
           Some a \<Rightarrow> trim a
         | None \<Rightarrow>
            if truthy ariaLabelledBy \<and> length labelTexts > 0 then trim (join '' '' labelTexts)
            else
            (case label of
               Some l \<Rightarrow> trim (textOf l)
             | None \<Rightarrow>
                 if tag = ''input'' \<and> type \<in> set [Some ''submit'', Some ''reset'', Some ''button'']
                    \<and> formValue el \<noteq> []
                 then trim (formValue el)
                 else if ((tag = ''input'' \<and> type \<in> set [Some ''text'', Some ''email'', Some ''password'',
                              Some ''search'', Some ''tel'', Some ''url'', Some ''number''])
                          \<or> tag = ''textarea'') \<and> formValue el \<noteq> []
                 then trim (formValue el)
                 else if tag = ''img'' \<and> truthy altText then trim (case altText of Some a \<Rightarrow> a | None \<Rightarrow> [])
                 else if \<not> offsetParentNull el \<and> \<not> hidden el
                         \<and> length (trim (textOf el)) > 0 \<and> length (trim (textOf el)) < 80
                         \<and> length (trim (cleanText el)) > 0 \<and> length (trim (cleanText el)) < 80
                 then trim (cleanText el)
                 else (case (if truthy title then title else None) of
                         Some t \<Rightarrow> if length t < 80 then trim t else []
                       | None \<Rightarrow> [])))"

record locatorOptions =
  optName :: "string option"
  optExact :: "bool option"

text \<open>
  The callback that \<open>validatePlaywrightLocatorUniqueness\<close> filters all elements of the
  document with. \<open>None\<close> in an option is \<open>undefined\<close>.
\<close>

definition evaluatorAccepts :: "element \<Rightarrow> string \<Rightarrow> string \<Rightarrow> locatorOptions \<Rightarrow> node \<Rightarrow> bool" where
  "evaluatorAccepts doc method val options el =
     (let exactMatch = (optExact options = Some True);
          tag = toLowerCase (tagName el)
      in if offsetParentNull el \<or> hidden el \<or> tag = ''script'' \<or> tag = ''style'' then False
         else if method = ''getByRole'' then
           (if orElse (getAttribute el ''role'') (getImplicitRole_legacy el) = Some val then
              (case optName options of
                 Some nm \<Rightarrow>
                   (if exactMatch then getAccessibleName_legacy doc el = nm
                    else includesStr (getAccessibleName_legacy doc el) nm)
               | None \<Rightarrow> True)
            else False)
         else if method = ''getByText'' \<or> method = ''getByLabel'' then
           (if getAccessibleName_legacy doc el = [] then False
            else if exactMatch then getAccessibleName_legacy doc el = val
            else includesStr (getAccessibleName_legacy doc el) val)
         else if method = ''getByPlaceholder'' then
           (case (if truthy (getAttribute el ''placeholder'') then getAttribute el ''placeholder'' else None) of
              None \<Rightarrow> False
            | Some t \<Rightarrow> if exactMatch then t = val else includesStr t val)
         else if method = ''getByAltText'' then
           (if tag \<noteq> ''img'' then False
            else (case (if truthy (getAttribute el ''alt'') then getAttribute el ''alt'' else None) of
                    None \<Rightarrow> False
                  | Some t \<Rightarrow> if exactMatch then t = val else includesStr t val))
         else if method = ''getByTitle'' then
           (case (if truthy (getAttribute el ''title'') then getAttribute el ''title'' else None) of
              None \<Rightarrow> False
            | Some t \<Rightarrow> if exactMatch then t = val else includesStr t val)
         else if method = ''getByTestId'' then testIdOf el = Some val
         else False)"

definition validatePlaywrightLocatorUniqueness :: "element \<Rightarrow> path \<Rightarrow> string \<Rightarrow> string \<Rightarrow> locatorOptions \<Rightarrow> bool" where
  "validatePlaywrightLocatorUniqueness doc targetElement method val options =
     (let candidates =
            filter (\<lambda>p. case nodeAt doc p of None \<Rightarrow> False | Some el \<Rightarrow> evaluatorAccepts doc method val options el)
              (allElements doc None)
      in candidates = [targetElement])"

section \<open>Locator formatting (legacy content script)\<close>

text \<open>
  \<open>formatLocator\<close> of the legacy \<open>generateBestLocator\<close>. An option is printed
  according to its key in the Python dialect and according to the type of its value
  in the JavaScript dialect; \<open>escapeStr\<close> raises a \<open>TypeError\<close> on a value that is
  not a string. The options are left out when they print as the empty string.
\<close>

definition formatOption_legacy :: "bool \<Rightarrow> string \<times> optval \<Rightarrow> error + string" where
  \<open>formatOption_legacy isPytest kv =
     (case kv of
        (k, OBool b) \<Rightarrow>
          (if isPytest then
             (if k = ''name'' then Inl TypeError
              else if k = ''hasText'' then Inl TypeError
              else if k = ''exact'' then Inr (''exact='' @ (if b then ''true'' else ''false''))
              else Inl TypeError)
           else Inr (k @ '': '' @ (if b then ''true'' else ''false'')))
      | (k, OStr v) \<Rightarrow>
          (if isPytest then
             (if k = ''name'' then Inr (''name="'' @ escapeStr v @ ''"'')
              else if k = ''hasText'' then Inr (''has_text="'' @ escapeStr v @ ''"'')
              else if k = ''exact'' then Inr (''exact='' @ v)
              else Inr (k @ ''="'' @ escapeStr v @ ''"''))
           else Inr (k @ '': "'' @ escapeStr v @ ''"'')))\<close>

text \<open>The results of a \<open>map\<close> whose callback may raise: the first error, or all the values.\<close>

fun mapResults :: "('a \<Rightarrow> error + 'b) \<Rightarrow> 'a list \<Rightarrow> error + 'b list" where
  "mapResults f [] = Inr []"
| "mapResults f (x # xs) =
     (case f x of
        Inl e \<Rightarrow> Inl e
      | Inr y \<Rightarrow> (case mapResults f xs of Inl e \<Rightarrow> Inl e | Inr ys \<Rightarrow> Inr (y # ys)))"

definition formatLocator_legacy :: "string \<Rightarrow> string \<Rightarrow> string \<Rightarrow> (string \<times> optval) list option \<Rightarrow> error + string" where
  \<open>formatLocator_legacy framework method val options =
     (let isPytest = (framework = ''pytest'');
          methodName = (if isPytest then snakeCase method else method)
      in case (case options of
                 None \<Rightarrow> Inr []
               | Some opts \<Rightarrow>
                   (case mapResults (formatOption_legacy isPytest) opts of
                      Inl e \<Rightarrow> Inl e
                    | Inr strs \<Rightarrow> Inr (join '', '' strs))) of
           Inl e \<Rightarrow> Inl e
         | Inr optionsStr \<Rightarrow>
             (let formattedValue = ''"'' @ escapeStr val @ ''"''
              in if optionsStr \<noteq> []
                 then Inr (''page.'' @ methodName @ ''('' @ formattedValue @ '', '' @ optionsStr @ '')'')
                 else Inr (''page.'' @ methodName @ ''('' @ formattedValue @ '')'')))\<close>

text \<open>
  The pattern of \<open>formatChainedLocator\<close>,
  \<open>/^(getBy[A-Z][a-zA-Z]*)\("(.+?)"(?:, (.+))?\)$/\<close>, on the whole child text.
  \<open>childTail\<close> is what may follow the closing quote: \<open>, \<close> and a non-empty rest of
  the line before a final parenthesis (group 3), or the final parenthesis alone. The
  lazy group 2 ends at the first quote, after at least one character, that such a
  tail follows.
\<close>

definition childTail :: "string \<Rightarrow> string option option" where
  "childTail t =
     (if prefix '', '' t then
        (let x = butlast (drop 2 t)
         in if drop 2 t \<noteq> [] \<and> last t = CHR '')'' \<and> x \<noteq> [] \<and> \<not> list_ex isLineTerminator x
            then Some (Some x) else None)
      else if t = '')'' then Some None
      else None)"

fun lazyChild :: "string \<Rightarrow> string \<Rightarrow> (string \<times> string option) option" where
  "lazyChild acc [] = None"
| "lazyChild acc (c # r) =
     (if c = CHR 0x22 \<and> acc \<noteq> [] \<and> childTail r \<noteq> None
      then (case childTail r of None \<Rightarrow> None | Some g \<Rightarrow> Some (rev acc, g))
      else if isLineTerminator c then None
      else lazyChild (c # acc) r)"

definition matchChild :: "string \<Rightarrow> (string \<times> string \<times> string option) option" where
  "matchChild s =
     (if prefix ''getBy'' s then
        (case drop 5 s of
           [] \<Rightarrow> None
         | u # r \<Rightarrow>
             if isUpper u then
               (let letters = takeWhile isAlpha r;
                    rest = dropWhile isAlpha r
                in if prefix [CHR ''('', CHR 0x22] rest then
                     (case lazyChild [] (drop 2 rest) of
                        None \<Rightarrow> None
                      | Some (v, g) \<Rightarrow> Some (''getBy'' @ u # letters, v, g))
                   else None)
             else None)
      else None)"

text \<open>
  \<open>s.replace(/(\w+):\s*(true|false|"\w+")/g, '"$1":$2')\<close>: \<open>keyAt\<close> is the match at
  the start of a string, as the replacement text and the number of characters matched;
  \<open>quoteKeys\<close> scans the string, and its counter says how many characters of the last
  match are still to be skipped.
\<close>

definition isWord :: "char \<Rightarrow> bool" where
  "isWord c = (isAlpha c \<or> c \<in> set ''0123456789'' \<or> c = CHR ''_'')"

definition keyAt :: "string \<Rightarrow> (string \<times> nat) option" where
  "keyAt s =
     (let w = takeWhile isWord s;
          afterWord = dropWhile isWord s
      in if w = [] then None
         else (case afterWord of
                 [] \<Rightarrow> None
               | c # r \<Rightarrow>
                   if c = CHR '':'' then
                     (let spaces = takeWhile isSpace r;
                          t = dropWhile isSpace r;
                          quoted = takeWhile isWord (drop 1 t)
                      in if prefix ''true'' t
                         then Some (CHR 0x22 # w @ [CHR 0x22, CHR '':''] @ ''true'',
                                    length w + 1 + length spaces + 4)
                         else if prefix ''false'' t
                         then Some (CHR 0x22 # w @ [CHR 0x22, CHR '':''] @ ''false'',
                                    length w + 1 + length spaces + 5)
                         else if prefix [CHR 0x22] t \<and> quoted \<noteq> []
                                 \<and> prefix [CHR 0x22] (dropWhile isWord (drop 1 t))
                         then Some (CHR 0x22 # w @ [CHR 0x22, CHR '':''] @ CHR 0x22 # quoted @ [CHR 0x22],
                                    length w + 1 + length spaces + length quoted + 2)
                         else None)
                   else None))"

fun quoteKeys :: "nat \<Rightarrow> string \<Rightarrow> string" where
  "quoteKeys skip [] = []"
| "quoteKeys skip (c # r) =
     (if skip > 0 then quoteKeys (skip - 1) r
      else (case keyAt (c # r) of
              Some (out, n) \<Rightarrow> out @ quoteKeys (n - 1) r
            | None \<Rightarrow> c # quoteKeys 0 r))"

text \<open>
  \<open>JSON.parse\<close> belongs to the browser and is a parameter: the entries of the parsed
  object in order, or \<open>None\<close> for a \<open>SyntaxError\<close>. A value is a string, a boolean,
  or something else (a number, \<open>null\<close>, an array or an object).
\<close>

datatype json = JStr string | JBool bool | JOther

text \<open>
  Whether the callback that prints a parsed option in \<open>formatChainedLocator\<close>
  returns: a boolean is printed as it is in the JavaScript dialect, the value of
  \<open>exact\<close> is printed as it is in the Python dialect, and every other value goes
  through \<open>escapeStr\<close>, which raises a \<open>TypeError\<close> unless the value is a string.
\<close>

definition optionPrints :: "bool \<Rightarrow> string \<times> json \<Rightarrow> bool" where
  "optionPrints isPytest kv =
     (case kv of
        (k, JStr v) \<Rightarrow> True
      | (k, JBool b) \<Rightarrow> (if isPytest then k \<noteq> ''name'' \<and> k \<noteq> ''hasText'' \<and> k = ''exact'' else True)
      | (k, JOther) \<Rightarrow> isPytest \<and> k \<noteq> ''name'' \<and> k \<noteq> ''hasText'' \<and> k = ''exact'')"

text \<open>
  \<open>formatChainedLocator(parentLocatorPart, childLocatorPart)\<close>. When the child text
  matches the pattern, the options of group 3 are parsed and printed; the value of
  group 2 is computed and not used. Both \<open>return\<close> statements of that branch then
  read \<open>formattedValue\<close>, a name that is declared in \<open>formatLocator\<close> only and is
  unbound here: a \<open>ReferenceError\<close>.
\<close>

definition formatChainedLocator :: "(string \<Rightarrow> (string \<times> json) list option) \<Rightarrow> string \<Rightarrow> string \<Rightarrow> string \<Rightarrow> error + string" where
  \<open>formatChainedLocator jsonParse framework parentLocatorPart childLocatorPart =
     (let isPytest = (framework = ''pytest'');
          cleanChild = (if prefix ''page.'' childLocatorPart then drop 5 childLocatorPart
                        else childLocatorPart)
      in if prefix ''locator("'' cleanChild \<and> suffix ''")'' cleanChild
         then Inr (parentLocatorPart @ ''.'' @ cleanChild)
         else (case matchChild cleanChild of
                 Some (method, val, group3) \<Rightarrow>
                   (case group3 of
                      None \<Rightarrow> Inl ReferenceError
                    | Some g \<Rightarrow>
                        (case jsonParse (''{'' @ quoteKeys 0 g @ ''}'') of
                           None \<Rightarrow> Inl SyntaxError
                         | Some options \<Rightarrow>
                             if list_all (optionPrints isPytest) options then Inl ReferenceError
                             else Inl TypeError))
               | None \<Rightarrow> Inr (parentLocatorPart @ ''.'' @ cleanChild)))\<close>

section \<open>A concrete selector engine for the examples\<close>

text \<open>
  The closed examples below need an engine. \<open>fragmentEngine\<close> implements the compound
  selectors that \<open>getRelativeCSS\<close> emits for plain names: an optional type selector
  or \<open>*\<close>, class selectors, and an optional \<open>:nth-of-type(k)\<close> with a decimal
  \<open>k\<close>. It answers with a \<open>SyntaxError\<close> on every other text. The general theorems
  hold for every engine and do not refer to this one.
\<close>

definition isDigit :: "char \<Rightarrow> bool" where
  "isDigit c = (c \<in> set ''0123456789'')"

definition isNameStart :: "char \<Rightarrow> bool" where
  "isNameStart c = (isAlpha c \<or> c = CHR ''_'')"

definition isNameChar :: "char \<Rightarrow> bool" where
  "isNameChar c = (isNameStart c \<or> isDigit c \<or> c = CHR ''-'')"

definition isIdent :: "string \<Rightarrow> bool" where
  "isIdent s =
     (case s of
        [] \<Rightarrow> False
      | c # r \<Rightarrow>
          if c = CHR ''-'' then
            (case r of [] \<Rightarrow> False | d # r' \<Rightarrow> (isNameStart d \<or> d = CHR ''-'') \<and> list_all isNameChar r')
          else isNameStart c \<and> list_all isNameChar r)"

fun splitAcc :: "char \<Rightarrow> string \<Rightarrow> string \<Rightarrow> string list" where
  "splitAcc c cur [] = [rev cur]"
| "splitAcc c cur (x # s) = (if x = c then rev cur # splitAcc c [] s else splitAcc c (x # cur) s)"

definition digitValue :: "char \<Rightarrow> nat" where
  "digitValue c = length (takeWhile (\<lambda>d. d \<noteq> c) ''0123456789'')"

definition parseNat :: "string \<Rightarrow> nat" where
  "parseNat ds = foldl (\<lambda>n d. 10 * n + digitValue d) 0 ds"

datatype compound = Compound (selTag: "string option") (selClasses: "string list") (selNth: "nat option")

text \<open>The pseudo-class part: absent, \<open>:nth-of-type(k)\<close>, or a syntax error (\<open>None\<close>).\<close>

definition parsePseudo :: "string \<Rightarrow> nat option option" where
  "parsePseudo s =
     (if s = [] then Some None
      else if prefix '':nth-of-type('' s then
        (let ds = takeWhile isDigit (drop 13 s)
         in if ds \<noteq> [] \<and> dropWhile isDigit (drop 13 s) = '')'' then Some (Some (parseNat ds)) else None)
      else None)"

definition parseCompound :: "string \<Rightarrow> compound option" where
  "parseCompound s =
     (let main = takeWhile (\<lambda>c. c \<noteq> CHR '':'') s;
          pseudo = parsePseudo (dropWhile (\<lambda>c. c \<noteq> CHR '':'') s)
      in case splitAcc (CHR ''.'') [] main of
           [] \<Rightarrow> None
         | tagPart # classes \<Rightarrow>
             (case pseudo of
                None \<Rightarrow> None
              | Some idx \<Rightarrow>
                  if (tagPart = [] \<or> tagPart = ''*'' \<or> isIdent tagPart) \<and> list_all isIdent classes
                     \<and> (tagPart \<noteq> [] \<or> classes \<noteq> [] \<or> idx \<noteq> None)
                  then Some (Compound (if tagPart = [] \<or> tagPart = ''*'' then None else Some tagPart)
                               classes idx)
                  else None))"

text \<open>The position of an element among the siblings of its type, counted from 1.\<close>

definition typeIndex :: "element \<Rightarrow> path \<Rightarrow> nat" where
  "typeIndex doc p =
     (case p of
        [] \<Rightarrow> 1
      | i # q \<Rightarrow>
          (case subtree doc q of
             None \<Rightarrow> 0
           | Some e \<Rightarrow>
               (case childAt e i of
                  None \<Rightarrow> 0
                | Some k \<Rightarrow> length (filter (\<lambda>x. tagName (nd x) = tagName (nd k)) (take (Suc i) (kids e))))))"

definition matchesCompound :: "element \<Rightarrow> compound \<Rightarrow> path \<Rightarrow> bool" where
  "matchesCompound doc c p =
     (case nodeAt doc p of
        None \<Rightarrow> False
      | Some el \<Rightarrow>
          (case selTag c of None \<Rightarrow> True | Some t \<Rightarrow> toLowerCase t = toLowerCase (tagName el))
          \<and> list_all (\<lambda>cls. cls \<in> set (classList el)) (selClasses c)
          \<and> (case selNth c of None \<Rightarrow> True | Some k \<Rightarrow> typeIndex doc p = k))"

definition fragmentEngine :: engine where
  "fragmentEngine =
     \<lparr>querySelectorAll = (\<lambda>doc scope sel.
          map_option (\<lambda>c. filter (matchesCompound doc c) (allElements doc scope)) (parseCompound sel)),
      matches = (\<lambda>doc p sel. map_option (\<lambda>c. matchesCompound doc c p) (parseCompound sel))\<rparr>"

text \<open>
  An element as an example writes it: a tag name, attributes and its text, rendered,
  with no form value, no outline and no \<open>script\<close> or \<open>style\<close> content.
\<close>

definition htmlNode :: "string \<Rightarrow> (string \<times> string) list \<Rightarrow> string \<Rightarrow> node" where
  "htmlNode t as txt =
     \<lparr>tagName = t, attributes = as, innerText = txt, textContent = txt, cleanText = txt,
      formValue = [], offsetParentNull = False, outline = []\<rparr>"

section \<open>Strategies apart from their rendering\<close>

text \<open>
  The specification's view of a locator: an ordered sequence of segments, each a
  semantic candidate (kind, value, options) or a structural sub-path, with a severity.
  \<open>selectStrategy\<close> follows the tiers of \<open>generateBestLocator\<close> but builds this
  expression and takes no dialect; \<open>render\<close> prints an expression in a dialect
  with the script's own \<open>formatLocator\<close>.
\<close>

datatype strategyKind = TestId | RoleName | Role | Placeholder | AltText | Text

datatype candidateOptions = NoOptions | ExactOnly | NameExact string

datatype segment = Semantic strategyKind string candidateOptions | Structural string

datatype severity = NoWarning | Warning

type_synonym expression = "segment list \<times> severity"

definition methodOf :: "strategyKind \<Rightarrow> string" where
  "methodOf k =
     (case k of
        TestId \<Rightarrow> ''getByTestId''
      | RoleName \<Rightarrow> ''getByRole''
      | Role \<Rightarrow> ''getByRole''
      | Placeholder \<Rightarrow> ''getByPlaceholder''
      | AltText \<Rightarrow> ''getByAltText''
      | Text \<Rightarrow> ''getByText'')"

definition optionsOf :: "candidateOptions \<Rightarrow> (string \<times> optval) list option" where
  "optionsOf opts =
     (case opts of
        NoOptions \<Rightarrow> None
      | ExactOnly \<Rightarrow> Some [(''exact'', OBool True)]
      | NameExact n \<Rightarrow> Some [(''name'', OStr n), (''exact'', OBool True)])"

definition renderSegment :: "string \<Rightarrow> segment \<Rightarrow> string" where
  \<open>renderSegment framework seg =
     (case seg of
        Semantic k v opts \<Rightarrow>
          (case formatLocator framework (methodOf k) (Str v) (optionsOf opts) of
             Inl e \<Rightarrow> []
           | Inr s \<Rightarrow> stripPage s)
      | Structural css \<Rightarrow> ''locator("'' @ escapeStr css @ ''")'')\<close>

definition render :: "string \<Rightarrow> expression \<Rightarrow> string" where
  "render framework ex =
     ''page.'' @ join ''.'' (map (renderSegment framework) (fst ex))
       @ (case snd ex of NoWarning \<Rightarrow> [] | Warning \<Rightarrow> '' '' @ fallbackComment framework)"

text \<open>
  What makes an ancestor's expression usable as the first part of a chain: no warning,
  no structural segment, and no value that itself contains \<open>locator(\<close> or \<open>WARNING\<close>.
\<close>

definition mentions :: "string \<Rightarrow> bool" where
  "mentions s = (includesStr s ''locator('' \<or> includesStr s ''WARNING'')"

definition stableSegment :: "segment \<Rightarrow> bool" where
  "stableSegment seg =
     (case seg of
        Structural css \<Rightarrow> False
      | Semantic k v opts \<Rightarrow>
          \<not> mentions (escapeStr v)
          \<and> (case opts of NameExact n \<Rightarrow> \<not> mentions (escapeStr n) | NoOptions \<Rightarrow> True | ExactOnly \<Rightarrow> True))"

definition stableExpression :: "expression \<Rightarrow> bool" where
  "stableExpression ex = (snd ex = NoWarning \<and> list_all stableSegment (fst ex))"

definition roleSegment :: "jsval \<Rightarrow> candidateOptions \<Rightarrow> error + segment" where
  "roleSegment role opts =
     (case role of
        Str r \<Rightarrow> Inr (Semantic (case opts of NoOptions \<Rightarrow> Role | ExactOnly \<Rightarrow> Role | NameExact n \<Rightarrow> RoleName) r opts)
      | Null \<Rightarrow> Inl TypeError
      | Inherited k \<Rightarrow> Inl TypeError)"

fun chainLoopStrategy :: "engine \<Rightarrow> element \<Rightarrow> path \<Rightarrow> jsval \<Rightarrow> (path \<times> (error + expression)) list \<Rightarrow> (error + expression) option" where
  "chainLoopStrategy eng doc p role [] = None"
| "chainLoopStrategy eng doc p role ((q, r) # rest) =
     (case r of
        Inl e \<Rightarrow> Some (Inl e)
      | Inr parent \<Rightarrow>
          if stableExpression parent
          then
            (if jsTruthy role \<and> isLocatorUniqueInScope doc ''getByRole'' role p (Some q)
             then (case roleSegment role NoOptions of
                     Inl e \<Rightarrow> Some (Inl e)
                   | Inr seg \<Rightarrow> Some (Inr (fst parent @ [seg], NoWarning)))
             else (case getRelativeCSS eng doc p (Some q) of
                     Inl e \<Rightarrow> Some (Inl e)
                   | Inr relativeCSS \<Rightarrow>
                       (case querySelectorAll eng doc (Some q) relativeCSS of
                          None \<Rightarrow> Some (Inl SyntaxError)
                        | Some found \<Rightarrow>
                            if length found = 1
                            then Some (Inr (fst parent @ [Structural relativeCSS], NoWarning))
                            else chainLoopStrategy eng doc p role rest)))
          else chainLoopStrategy eng doc p role rest)"

function selectStrategy :: "engine \<Rightarrow> element \<Rightarrow> path \<Rightarrow> error + expression" where
  "selectStrategy eng doc p =
     (case nodeAt doc p of
        None \<Rightarrow> Inl TypeError
      | Some el \<Rightarrow>
         (let testId = testIdOf el;
              role = getImplicitRole el;
              accName = getAccessibleName doc el;
              placeholder = getAttribute el ''placeholder'';
              altText = getAttribute el ''alt''
          in case (if truthy testId then testId else None) of
               Some t \<Rightarrow> Inr ([Semantic TestId t NoOptions], NoWarning)
             | None \<Rightarrow>
               if jsTruthy role \<and> accName \<noteq> []
               then map_sum id (\<lambda>seg. ([seg], NoWarning)) (roleSegment role (NameExact accName))
               else (case (if truthy placeholder then placeholder else None) of
                 Some ph \<Rightarrow> Inr ([Semantic Placeholder ph ExactOnly], NoWarning)
               | None \<Rightarrow>
                 (case (if truthy altText then altText else None) of
                   Some a \<Rightarrow> Inr ([Semantic AltText a ExactOnly], NoWarning)
                 | None \<Rightarrow>
                   if accName \<noteq> []
                   then Inr ([Semantic Text accName ExactOnly], NoWarning)
                   else if jsTruthy role \<and> isLocatorUniqueInScope doc ''getByRole'' role p None
                   then map_sum id (\<lambda>seg. ([seg], NoWarning)) (roleSegment role NoOptions)
                   else
                     (case chainLoopStrategy eng doc p role
                             (map (\<lambda>q. (q, selectStrategy eng doc q)) (chainAncestors doc p)) of
                        Some r \<Rightarrow> r
                      | None \<Rightarrow>
                         (case getRelativeCSS eng doc p (parentElement p) of
                            Inl e \<Rightarrow> Inl e
                          | Inr cssSelector \<Rightarrow> Inr ([Structural cssSelector], Warning)))))))"
  by pat_completeness auto
termination
proof (relation "measure (\<lambda>(eng, doc, p). length p)")
  show "wf (measure (\<lambda>(eng, doc, p). length p))"
    by simp
next
  fix eng :: engine and doc :: element and p q :: path
  assume visited: "q \<in> set (chainAncestors doc p)"
  have shorter: "a \<in> set (ancestors b) \<Longrightarrow> length a < length b" for a b :: path
    by (induction b) auto
  from visited have "q \<in> set (ancestors p)"
    unfolding chainAncestors_def by (meson in_set_takeD set_takeWhileD)
  then have "length q < length p"
    by (rule shorter)
  then show "((eng, doc, q), (eng, doc, p)) \<in> measure (\<lambda>(eng, doc, p). length p)"
    by simp
qed

declare selectStrategy.simps [simp del]

text \<open>The parts of a rendered semantic segment before and after its quoted value.\<close>

definition segmentHead :: "string \<Rightarrow> strategyKind \<Rightarrow> string" where
  "segmentHead framework k =
     (if framework = ''pytest'' then snakeCase (methodOf k) else methodOf k) @ ''(''"

definition optionsTail :: "string \<Rightarrow> candidateOptions \<Rightarrow> string" where
  "optionsTail framework opts =
     (case opts of
        NoOptions \<Rightarrow> '')''
      | ExactOnly \<Rightarrow> (if framework = ''pytest'' then '', exact=True)'' else '', { exact: true })'')
      | NameExact n \<Rightarrow>
          (if framework = ''pytest'' then '', name='' else '', { name: '')
            @ CHR 0x22 # escapeStr n
            @ CHR 0x22 # (if framework = ''pytest'' then '', exact=True)'' else '', exact: true })''))"

text \<open>The outcome of a synthesis, printed in a dialect: an error stays the error.\<close>

definition renderResult :: "string \<Rightarrow> error + expression \<Rightarrow> error + string" where
  "renderResult framework r = (case r of Inl e \<Rightarrow> Inl e | Inr ex \<Rightarrow> Inr (render framework ex))"


section \<open>Example documents\<close>



text \<open>Two sibling \<open><button>Submit</button>\<close> elements without test ids.\<close>

definition twoButtonsPage :: element where
  "twoButtonsPage =
     Element (htmlNode ''HTML'' [] ''Submit Submit'')
       [Element (htmlNode ''BODY'' [] ''Submit Submit'')
          [Element (htmlNode ''BUTTON'' [] ''Submit'') [],
           Element (htmlNode ''BUTTON'' [] ''Submit'') []]]"


text \<open>A page with an empty \<open>head\<close> and an empty \<open>body\<close>.\<close>

definition emptyPage :: element where
  "emptyPage =
     Element (htmlNode ''HTML'' [] '''')
       [Element (htmlNode ''HEAD'' [] '''') [], Element (htmlNode ''BODY'' [] '''') []]"

text \<open>An element with two different test-id attributes, and a search box.\<close>

definition twoTestIds :: node where
  "twoTestIds = htmlNode ''DIV'' [(''data-testid'', ''a''), (''data-qa'', ''b'')] ''x''"


text \<open>A container with a test id around two \<open>span\<close> elements of the same classes.\<close>

definition chainedPage :: element where
  "chainedPage =
     Element (htmlNode ''HTML'' [] '''')
       [Element (htmlNode ''BODY'' [] '''')
          [Element (htmlNode ''DIV'' [(''data-testid'', ''box'')] '''')
             [Element (htmlNode ''SPAN'' [(''class'', ''foo bar'')] '''') [],
              Element (htmlNode ''SPAN'' [(''class'', ''foo bar'')] '''') []]]]"

text \<open>A page whose only paragraph has 120 characters of text.\<close>

definition longTextPage :: element where
  "longTextPage =
     Element (htmlNode ''HTML'' [] (replicate 120 (CHR ''x'')))
       [Element (htmlNode ''BODY'' [] (replicate 120 (CHR ''x'')))
          [Element (htmlNode ''P'' [] (replicate 120 (CHR ''x''))) []]]"

section \<open>Strings\<close>

lemma includesStr_sublist: "includesStr s pat = sublist pat s"
  by (induction s) (auto simp: sublist_Cons_right)

section \<open>Addresses and the elements of a document\<close>






section \<open>The tiers of synthesis\<close>






subsection \<open>Test ids\<close>




subsection \<open>Role and name\<close>







subsection \<open>Errors that escape\<close>

text \<open>
  C4, the code at the failing input: on a page without text, synthesis for the
  \<open>body\<close> element (and for the root element) raises a \<open>TypeError\<close> in both
  dialects. No tier applies to \<open>body\<close>, the chaining loop calls synthesis for the
  root element, and there the final fallback reads \<open>children\<close> of the \<open>null\<close> parent.
\<close>

theorem body_click_raises_TypeError:
  "generateBestLocator fragmentEngine emptyPage [1] ''pytest'' = Inl TypeError
   \<and> generateBestLocator fragmentEngine emptyPage [1] ''js'' = Inl TypeError
   \<and> generateBestLocator fragmentEngine emptyPage [] ''pytest'' = Inl TypeError"
  by code_simp

text \<open>
  C5, the code at the failing input: \<open>locator("[")\<close> is not a selector, so the guarded
  query fails silently, but the pattern for \<open>locator(...)\<close> then passes \<open>[\<close> to an
  unguarded \<open>querySelectorAll\<close> and the \<open>SyntaxError\<close> escapes. The earlier
  \<open>highlightElements\<close> answers 0 for an invalid selector.
\<close>

theorem verify_unguarded_selector_raises:
  \<open>snd (findAndHighlight fragmentEngine twoButtonsPage ''locator("[")'') = Inl SyntaxError
   \<and> snd (highlightElements fragmentEngine twoButtonsPage ''['') = 0\<close>
  by code_simp

section \<open>The evaluator and the matcher\<close>

text \<open>
  C8, as the code has it: the evaluator's test-id predicate holds for an element
  exactly when the element passes the evaluator's filter (rendered, not hidden, not
  \<open>script\<close> or \<open>style\<close>) and the value equals the first non-empty one of
  \<open>data-testid\<close>, \<open>data-qa\<close> and \<open>data-test\<close>, or \<open>data-test\<close> when the first
  two are absent or empty. An attribute behind an earlier non-empty one is not
  compared.
\<close>

theorem evaluator_testId_first_nonempty:
  "evaluatorAccepts doc ''getByTestId'' v options el \<longleftrightarrow>
     (\<not> offsetParentNull el \<and> \<not> hidden el
        \<and> toLowerCase (tagName el) \<noteq> ''script'' \<and> toLowerCase (tagName el) \<noteq> ''style'')
     \<and> ((truthy (getAttribute el ''data-testid'') \<and> getAttribute el ''data-testid'' = Some v)
        \<or> (\<not> truthy (getAttribute el ''data-testid'') \<and> truthy (getAttribute el ''data-qa'')
             \<and> getAttribute el ''data-qa'' = Some v)
        \<or> (\<not> truthy (getAttribute el ''data-testid'') \<and> \<not> truthy (getAttribute el ''data-qa'')
             \<and> getAttribute el ''data-test'' = Some v))"
  by (auto simp: evaluatorAccepts_def testIdOf_def orElse_def Let_def)

text \<open>C8, witness: the element with \<open>data-testid="a"\<close> and \<open>data-qa="b"\<close> is accepted for \<open>a\<close>.\<close>

theorem evaluator_testId_first_nonempty_witness:
  "evaluatorAccepts emptyPage ''getByTestId'' ''a'' \<lparr>optName = None, optExact = None\<rparr> twoTestIds
   \<and> getAttribute twoTestIds ''data-testid'' = Some ''a''"
proof -
  have "\<not> offsetParentNull twoTestIds" "\<not> hidden twoTestIds"
    "toLowerCase (tagName twoTestIds) \<noteq> ''script''" "toLowerCase (tagName twoTestIds) \<noteq> ''style''"
    "truthy (getAttribute twoTestIds ''data-testid'')" "getAttribute twoTestIds ''data-testid'' = Some ''a''"
    by code_simp+
  then show ?thesis
    using evaluator_testId_first_nonempty
            [of emptyPage "''a''" "\<lparr>optName = None, optExact = None\<rparr>" twoTestIds]
    by simp
qed

text \<open>
  C8, counterexample: the same rendered element has \<open>data-qa="b"\<close>, yet the
  predicate for the value \<open>b\<close> does not hold, because \<open>data-testid="a"\<close> comes first.
\<close>

theorem evaluator_testId_ignores_later_attribute:
  "getAttribute twoTestIds ''data-qa'' = Some ''b''
   \<and> \<not> offsetParentNull twoTestIds \<and> \<not> hidden twoTestIds
   \<and> \<not> evaluatorAccepts emptyPage ''getByTestId'' ''b'' \<lparr>optName = None, optExact = None\<rparr> twoTestIds"
  by code_simp




section \<open>Termination of the chaining recursion\<close>

lemma ancestors_drop:
  "q \<in> set (take n (ancestors p)) \<Longrightarrow> \<exists>k. 1 \<le> k \<and> k \<le> n \<and> k \<le> length p \<and> q = drop k p"
proof (induction p arbitrary: n)
  case Nil
  then show ?case
    by simp
next
  case (Cons i p)
  show ?case
  proof (cases n)
    case 0
    then show ?thesis
      using Cons.prems by simp
  next
    case (Suc m)
    then have "q = p \<or> q \<in> set (take m (ancestors p))"
      using Cons.prems by simp
    then show ?thesis
    proof
      assume "q = p"
      then show ?thesis
        using Suc by (intro exI[of _ 1]) simp
    next
      assume "q \<in> set (take m (ancestors p))"
      then obtain k where "1 \<le> k" "k \<le> m" "k \<le> length p" "q = drop k p"
        using Cons.IH by blast
      then show ?thesis
        using Suc by (intro exI[of _ "Suc k"]) simp
    qed
  qed
qed

lemma chainAncestors_props:
  assumes "q \<in> set (chainAncestors doc p)"
  shows "(\<exists>k. 1 \<le> k \<and> k \<le> 4 \<and> k \<le> length p \<and> q = drop k p)
       \<and> (\<exists>n. nodeAt doc q = Some n \<and> tagName n \<noteq> ''BODY'')"
proof -
  from assms have a: "q \<in> set (take 4 (ancestors p))"
    unfolding chainAncestors_def by (rule set_takeWhileD[THEN conjunct1])
  from assms have b: "case nodeAt doc q of None \<Rightarrow> False | Some n \<Rightarrow> tagName n \<noteq> ''BODY''"
    unfolding chainAncestors_def by (rule set_takeWhileD[THEN conjunct2])
  show ?thesis
    using ancestors_drop[OF a] b by (auto split: option.splits)
qed

text \<open>
  \<open>generateBestLocator_rel callee caller\<close> is the call relation of the definition:
  the arguments of a self-call, and the arguments of the call that makes it.
\<close>

lemma generateBestLocator_rel_step:
  assumes "generateBestLocator_rel (eng', doc', q, fw') (eng, doc, p, fw)"
  shows "eng' = eng \<and> doc' = doc \<and> fw' = fw \<and> q \<in> set (chainAncestors doc p)"
  using assms by (cases rule: generateBestLocator_rel.cases) auto

lemma generateBestLocator_rel_pow:
  "(generateBestLocator_rel ^^ n) y x
     \<Longrightarrow> n + length (fst (snd (snd y))) \<le> length (fst (snd (snd x)))"
proof (induction n arbitrary: x)
  case 0
  then show ?case
    by simp
next
  case (Suc n)
  then obtain z where z: "(generateBestLocator_rel ^^ n) y z" "generateBestLocator_rel z x"
    by auto
  obtain e d q f where zz: "z = (e, d, q, f)"
    by (cases z) auto
  obtain e' d' p f' where xx: "x = (e', d', p, f')"
    by (cases x) auto
  have "q \<in> set (chainAncestors d' p)"
    using generateBestLocator_rel_step z(2) zz xx by blast
  then have "length q < length p"
    using chainAncestors_props by fastforce
  moreover have "n + length (fst (snd (snd y))) \<le> length q"
    using Suc.IH[OF z(1)] zz by simp
  ultimately show ?case
    using xx by simp
qed

text \<open>
  C10: a self-call of \<open>generateBestLocator\<close> keeps the engine, the document and the
  dialect and is made on one of the ancestors that the chaining loop visits, that is
  on the \<open>k\<close>-th ancestor of the argument for some \<open>k\<close> from 1 to 4, an element
  whose tag name is not \<open>BODY\<close>; the loop visits at most four ancestors; \<open>n\<close> nested
  self-calls reach an element at least \<open>n\<close> levels above the argument, so the depth
  of the recursion is at most the depth of the element in the tree; and every call
  terminates (its arguments are in the accessible part of the call relation).
\<close>

theorem chaining_recursion_terminates:
  "(generateBestLocator_rel (eng', doc', q, fw') (eng, doc, p, fw) \<longrightarrow>
      eng' = eng \<and> doc' = doc \<and> fw' = fw \<and> q \<in> set (chainAncestors doc p)
      \<and> (\<exists>k. 1 \<le> k \<and> k \<le> 4 \<and> k \<le> length p \<and> q = drop k p)
      \<and> (\<exists>n. nodeAt doc q = Some n \<and> tagName n \<noteq> ''BODY''))
   \<and> length (chainAncestors doc p) \<le> 4
   \<and> ((generateBestLocator_rel ^^ n) (eng', doc', q, fw') (eng, doc, p, fw) \<longrightarrow> n + length q \<le> length p)
   \<and> generateBestLocator_dom (eng, doc, p, fw)"
proof -
  have a: "generateBestLocator_rel (eng', doc', q, fw') (eng, doc, p, fw) \<longrightarrow>
      eng' = eng \<and> doc' = doc \<and> fw' = fw \<and> q \<in> set (chainAncestors doc p)
      \<and> (\<exists>k. 1 \<le> k \<and> k \<le> 4 \<and> k \<le> length p \<and> q = drop k p)
      \<and> (\<exists>n. nodeAt doc q = Some n \<and> tagName n \<noteq> ''BODY'')"
    using generateBestLocator_rel_step chainAncestors_props by blast
  have b: "length (chainAncestors doc p) \<le> 4"
    unfolding chainAncestors_def
    by (rule order_trans[OF length_takeWhile_le]) simp
  have c: "(generateBestLocator_rel ^^ n) (eng', doc', q, fw') (eng, doc, p, fw)
             \<longrightarrow> n + length q \<le> length p"
    using generateBestLocator_rel_pow[of n "(eng', doc', q, fw')" "(eng, doc, p, fw)"] by simp
  have "wfp generateBestLocator_rel"
  proof (rule wfp_if_convertible_to_nat)
    fix y x
    assume "generateBestLocator_rel y x"
    then have "(generateBestLocator_rel ^^ 1) y x"
      by auto
    then show "length (fst (snd (snd y))) < length (fst (snd (snd x)))"
      using generateBestLocator_rel_pow[of 1 y x] by simp
  qed
  then have d: "generateBestLocator_dom (eng, doc, p, fw)"
    by (rule accp_wfpD)
  show ?thesis
    using a b c d by blast
qed

text \<open>
  C10, witness: on the empty page synthesis for \<open>body\<close> calls itself on the root
  element, its first ancestor, and both calls terminate.
\<close>

theorem chaining_recursion_terminates_witness:
  "generateBestLocator_rel (fragmentEngine, emptyPage, [], ''js'') (fragmentEngine, emptyPage, [1], ''js'')
   \<and> [] \<in> set (chainAncestors emptyPage [1])
   \<and> length (chainAncestors emptyPage [1]) \<le> 4
   \<and> generateBestLocator_dom (fragmentEngine, emptyPage, [1], ''js'')"
proof -
  let ?b = "htmlNode ''BODY'' [] ''''"
  have n: "nodeAt emptyPage [1] = Some ?b"
    by code_simp
  have c: "(if truthy (testIdOf ?b) then testIdOf ?b else None) = None"
    "\<not> (jsTruthy (getImplicitRole ?b) \<and> getAccessibleName emptyPage ?b \<noteq> [])"
    "(if truthy (getAttribute ?b ''placeholder'') then getAttribute ?b ''placeholder'' else None) = None"
    "(if truthy (getAttribute ?b ''alt'') then getAttribute ?b ''alt'' else None) = None"
    "\<not> getAccessibleName emptyPage ?b \<noteq> []"
    "\<not> (jsTruthy (getImplicitRole ?b)
         \<and> isLocatorUniqueInScope emptyPage ''getByRole'' (getImplicitRole ?b) [1] None)"
    "[] \<in> set (chainAncestors emptyPage [1])"
    by code_simp+
  have r: "generateBestLocator_rel (fragmentEngine, emptyPage, [], ''js'')
             (fragmentEngine, emptyPage, [1], ''js'')"
    by (rule generateBestLocator_rel.intros[OF n refl refl refl refl refl c])
  show ?thesis
    using chaining_recursion_terminates
            [of fragmentEngine emptyPage "[]" "''js''" fragmentEngine emptyPage "[1]" "''js''" 1] r
    by blast
qed

section \<open>The dialect only changes the rendering\<close>

lemma includes_split:
  assumes "c \<notin> set pat"
  shows "includesStr (a @ c # b) pat \<longleftrightarrow> includesStr a pat \<or> includesStr b pat"
proof -
  have nil: "x2 = []" if "prefix x2 (c # b)" "set x2 \<subseteq> set pat" for x2
    using that assms by (cases x2) auto
  have "sublist pat (a @ c # b) \<longleftrightarrow> sublist pat a \<or> sublist pat b"
  proof
    assume "sublist pat (a @ c # b)"
    then consider "sublist pat a" | "sublist pat (c # b)"
      | xs1 xs2 where "pat = xs1 @ xs2" "suffix xs1 a" "prefix xs2 (c # b)"
      unfolding sublist_append by blast
    then show "sublist pat a \<or> sublist pat b"
    proof cases
      case 1
      then show ?thesis by simp
    next
      case 2
      then consider "prefix pat (c # b)" | "sublist pat b"
        unfolding sublist_Cons_right by blast
      then show ?thesis
      proof cases
        case 1
        then have "pat = []" using nil by blast
        then show ?thesis by simp
      next
        case 2
        then show ?thesis by simp
      qed
    next
      case 3
      then have "xs2 = []" using nil[of xs2] by auto
      then have "suffix pat a" using 3 by simp
      then show ?thesis by (simp add: suffix_imp_sublist)
    qed
  next
    assume "sublist pat a \<or> sublist pat b"
    then show "sublist pat (a @ c # b)"
      by (auto simp: sublist_append sublist_Cons_right)
  qed
  then show ?thesis
    by (simp add: includesStr_sublist)
qed

lemma includes_appendI2: "includesStr b pat \<Longrightarrow> includesStr (a @ b) pat"
  by (simp add: includesStr_sublist sublist_append)

lemma includes_appendI1: "includesStr a pat \<Longrightarrow> includesStr (a @ b) pat"
  by (simp add: includesStr_sublist sublist_append)

lemma snake_methods:
  "snakeCase ''getByTestId'' = ''get_by_test_id''"
  "snakeCase ''getByRole'' = ''get_by_role''"
  "snakeCase ''getByPlaceholder'' = ''get_by_placeholder''"
  "snakeCase ''getByAltText'' = ''get_by_alt_text''"
  "snakeCase ''getByText'' = ''get_by_text''"
  by code_simp+

lemma renderSegment_form:
  "renderSegment framework (Semantic k v opts)
     = segmentHead framework k @ CHR 0x22 # (escapeStr v @ CHR 0x22 # optionsTail framework opts)"
  by (cases opts; cases "framework = ''pytest''")
     (simp_all add: renderSegment_def formatLocator_def stripPage_def formatOption_def optionsOf_def
        segmentHead_def optionsTail_def)

lemma segmentHead_clean:
  "\<not> includesStr (segmentHead framework k) ''locator(''"
  "\<not> includesStr (segmentHead framework k) ''WARNING''"
  by (cases k; cases "framework = ''pytest''";
      simp add: segmentHead_def methodOf_def snake_methods)+

lemma optionsTail_includes:
  assumes "pat = ''locator('' \<or> pat = ''WARNING''"
  shows "includesStr (optionsTail framework opts) pat
           \<longleftrightarrow> (case opts of NameExact n \<Rightarrow> includesStr (escapeStr n) pat | NoOptions \<Rightarrow> False | ExactOnly \<Rightarrow> False)"
  using assms
  by (cases opts; cases "framework = ''pytest''") (auto simp: optionsTail_def includes_split)

lemma segment_includes:
  assumes "pat = ''locator('' \<or> pat = ''WARNING''"
  shows "includesStr (renderSegment framework (Semantic k v opts)) pat
           \<longleftrightarrow> includesStr (escapeStr v) pat
               \<or> (case opts of NameExact n \<Rightarrow> includesStr (escapeStr n) pat | NoOptions \<Rightarrow> False | ExactOnly \<Rightarrow> False)"
proof -
  have q: "CHR 0x22 \<notin> set pat"
    using assms by auto
  have h: "\<not> includesStr (segmentHead framework k) pat"
    using assms segmentHead_clean by blast
  show ?thesis
    unfolding renderSegment_form includes_split[OF q] optionsTail_includes[OF assms]
    using h by simp
qed

lemma structural_includes:
  \<open>includesStr (renderSegment framework (Structural css)) ''locator(''\<close>
  by (simp add: renderSegment_def)

lemma comment_includes: "includesStr (fallbackComment framework) ''WARNING''"
  by (simp add: fallbackComment_def)

lemma join_Cons: "join sep (x # xs) = (if xs = [] then x else x @ sep @ join sep xs)"
  by (cases xs) auto

lemma join_dot_includes:
  assumes "CHR ''.'' \<notin> set pat" and "pat \<noteq> []"
  shows "includesStr (join ''.'' xs) pat \<longleftrightarrow> (\<exists>x \<in> set xs. includesStr x pat)"
proof (induction xs)
  case Nil
  then show ?case
    using assms by simp
next
  case (Cons x xs)
  show ?case
  proof (cases "xs = []")
    case True
    then show ?thesis
      by simp
  next
    case False
    then have "join ''.'' (x # xs) = x @ CHR ''.'' # join ''.'' xs"
      by (simp add: join_Cons)
    then show ?thesis
      using Cons includes_split[OF assms(1)] by simp
  qed
qed

lemma join_snoc: "join sep (xs @ [x]) = (if xs = [] then x else join sep xs @ sep @ x)"
  by (induction sep xs rule: join.induct) auto

lemma stableSegment_includes:
  \<open>stableSegment seg \<longleftrightarrow>
     \<not> includesStr (renderSegment framework seg) ''locator(''
     \<and> \<not> includesStr (renderSegment framework seg) ''WARNING''\<close>
proof (cases seg)
  case (Semantic k v opts)
  show ?thesis
    unfolding Semantic
    by (cases opts) (auto simp: stableSegment_def mentions_def segment_includes)
next
  case (Structural css)
  then show ?thesis
    using structural_includes by (simp add: stableSegment_def)
qed

lemma render_stable: "isStableLocator (render framework ex) = stableExpression ex"
proof (cases "snd ex")
  case NoWarning
  have p: "includesStr (''page.'' @ s) pat \<longleftrightarrow> includesStr s pat"
    if "pat = ''locator('' \<or> pat = ''WARNING''" for s pat
  proof -
    have "CHR ''.'' \<notin> set pat" using that by auto
    from includes_split[OF this, of "''page''" s] show ?thesis using that by auto
  qed
  have j: "includesStr (join ''.'' xs) pat \<longleftrightarrow> (\<exists>x \<in> set xs. includesStr x pat)"
    if "pat = ''locator('' \<or> pat = ''WARNING''" for xs pat
    using that by (intro join_dot_includes) auto
  show ?thesis
    using NoWarning
    by (auto simp: isStableLocator_def render_def stableExpression_def p j list_all_iff
          stableSegment_includes[of _ framework])
next
  case Warning
  have "includesStr (render framework ex) ''WARNING''"
    unfolding render_def Warning
    by (intro includes_appendI2) (simp add: comment_includes)
  then show ?thesis
    using Warning by (simp add: stableExpression_def isStableLocator_def)
qed

lemma render_snoc:
  assumes "fst ex \<noteq> []" and "snd ex = NoWarning"
  shows "render framework (fst ex @ [seg], NoWarning) = render framework ex @ ''.'' @ renderSegment framework seg"
  using assms by (simp add: render_def join_snoc)

lemma formatLocator_render:
  "formatLocator framework (methodOf k) (Str v) (optionsOf opts)
     = Inr (render framework ([Semantic k v opts], NoWarning))"
  by (cases opts) (simp_all add: render_def renderSegment_def formatLocator_def stripPage_def optionsOf_def Let_def)

lemma renderResult_simps [simp]:
  "renderResult framework (Inl e) = Inl e"
  "renderResult framework (Inr ex) = Inr (render framework ex)"
  by (simp_all add: renderResult_def)

lemma roleSegment_render:
  "formatLocator framework ''getByRole'' role (optionsOf opts)
     = renderResult framework (map_sum id (\<lambda>seg. ([seg], NoWarning)) (roleSegment role opts))"
proof (cases role)
  case (Str r)
  show ?thesis
    using formatLocator_render[of framework RoleName r opts] formatLocator_render[of framework Role r opts]
    by (cases opts) (simp_all add: roleSegment_def Str methodOf_def)
qed (simp_all add: roleSegment_def formatLocator_def)

lemma roleSegment_child:
  "formatLocator framework ''getByRole'' role None
     = (case roleSegment role NoOptions of
          Inl e \<Rightarrow> Inl e
        | Inr seg \<Rightarrow> Inr (''page.'' @ renderSegment framework seg))"
  by (cases role)
     (simp_all add: roleSegment_def formatLocator_def renderSegment_def methodOf_def optionsOf_def
        stripPage_def)

lemma chainLoopStrategy_nonempty:
  "chainLoopStrategy eng doc p role rs = Some (Inr ex) \<Longrightarrow> fst ex \<noteq> []"
  by (induction eng doc p role rs rule: chainLoopStrategy.induct)
     (auto split: sum.splits if_splits option.splits)

lemma selectStrategy_nonempty:
  assumes "selectStrategy eng doc p = Inr ex"
  shows "fst ex \<noteq> []"
  using assms
  by (subst (asm) selectStrategy.simps)
     (auto simp: Let_def roleSegment_def split: option.splits if_splits jsval.splits sum.splits
           dest: chainLoopStrategy_nonempty)

lemma chainLoop_strategy:
  assumes "\<And>q. q \<in> set qs \<Longrightarrow>
             generateBestLocator eng doc q framework
               = renderResult framework (selectStrategy eng doc q)"
  shows "chainLoop eng doc p framework role (map (\<lambda>q. (q, generateBestLocator eng doc q framework)) qs)
       = map_option (renderResult framework)
           (chainLoopStrategy eng doc p role (map (\<lambda>q. (q, selectStrategy eng doc q)) qs))"
  using assms
proof (induction qs)
  case Nil
  then show ?case by simp
next
  case (Cons q qs)
  have g: "generateBestLocator eng doc q framework = renderResult framework (selectStrategy eng doc q)"
    using Cons.prems by simp
  have ih: "chainLoop eng doc p framework role (map (\<lambda>q. (q, generateBestLocator eng doc q framework)) qs)
       = map_option (renderResult framework)
           (chainLoopStrategy eng doc p role (map (\<lambda>q. (q, selectStrategy eng doc q)) qs))"
    using Cons by simp
  show ?case
  proof (cases "selectStrategy eng doc q")
    case (Inl e)
    then show ?thesis using g by simp
  next
    case (Inr ex)
    have ne: "fst ex \<noteq> []" using selectStrategy_nonempty[OF Inr] .
    have gq: "generateBestLocator eng doc q framework = Inr (render framework ex)"
      using g Inr by simp
    show ?thesis
    proof (cases "stableExpression ex")
      case False
      then show ?thesis
        using ih gq Inr by (simp add: render_stable)
    next
      case True
      then have w: "snd ex = NoWarning" by (simp add: stableExpression_def)
      show ?thesis
      proof (cases "jsTruthy role \<and> isLocatorUniqueInScope doc ''getByRole'' role p (Some q)")
        case u: True
        show ?thesis
          using roleSegment_child[of framework role] u True gq Inr render_snoc[OF ne w, of framework]
          by (cases "roleSegment role NoOptions") (simp_all add: stripPage_def render_stable)
      next
        case u: False
        have sn: "render framework (fst ex @ [Structural css], NoWarning)
                    = render framework ex @ ''.'' @ ''locator('' @ CHR 0x22 # escapeStr css @ CHR 0x22 # '')''" for css
          using render_snoc[OF ne w, of framework "Structural css"] by (simp add: renderSegment_def)
        show ?thesis
          using u True gq Inr ih sn
          by (auto simp: render_stable split: sum.splits option.splits)
      qed
    qed
  qed
qed

lemma truthyE: "truthy a \<Longrightarrow> \<exists>s. a = Some s \<and> s \<noteq> []"
  by (cases a) (auto simp: truthy_def)

text \<open>
  In content.js the dialect only changes the rendering: for every element, engine and
  dialect the outcome of \<open>generateBestLocator\<close> is the outcome of
  \<open>selectStrategy\<close>, which does not depend on the dialect, printed in the dialect.
  So two dialects select the same segments (kinds, values, options, chaining) and the
  same severity, or raise the same error.
\<close>

lemma generateBestLocator_renders_strategy:
  "generateBestLocator eng doc p framework = renderResult framework (selectStrategy eng doc p)"
proof (induction p rule: length_induct)
  case (1 p)
  have ih: "generateBestLocator eng doc q framework = renderResult framework (selectStrategy eng doc q)"
    if "q \<in> set (chainAncestors doc p)" for q
  proof -
    have "length q < length p" using chainAncestors_props[OF that] by fastforce
    then show ?thesis using 1 by simp
  qed
  note loop = chainLoop_strategy[of "chainAncestors doc p" eng doc framework p, OF ih]
  show ?case
  proof (cases "nodeAt doc p")
    case None
    then show ?thesis
      by (subst generateBestLocator.simps, subst selectStrategy.simps) simp
  next
    case (Some el)
    let ?tid = "testIdOf el" and ?role = "getImplicitRole el" and ?acc = "getAccessibleName doc el"
    let ?ph = "getAttribute el ''placeholder''" and ?alt = "getAttribute el ''alt''"
    let ?uniq = "isLocatorUniqueInScope doc ''getByRole'' ?role p None"
    consider (testid) "truthy ?tid"
      | (rolename) "\<not> truthy ?tid" "jsTruthy ?role \<and> ?acc \<noteq> []"
      | (placeholder) "\<not> truthy ?tid" "\<not> (jsTruthy ?role \<and> ?acc \<noteq> [])" "truthy ?ph"
      | (alt) "\<not> truthy ?tid" "\<not> (jsTruthy ?role \<and> ?acc \<noteq> [])" "\<not> truthy ?ph" "truthy ?alt"
      | (bytext) "\<not> truthy ?tid" "\<not> (jsTruthy ?role \<and> ?acc \<noteq> [])" "\<not> truthy ?ph" "\<not> truthy ?alt"
               "?acc \<noteq> []"
      | (role) "\<not> truthy ?tid" "\<not> truthy ?ph" "\<not> truthy ?alt" "?acc = []" "jsTruthy ?role \<and> ?uniq"
      | (chain) "\<not> truthy ?tid" "\<not> truthy ?ph" "\<not> truthy ?alt" "?acc = []" "\<not> (jsTruthy ?role \<and> ?uniq)"
      by blast
    then show ?thesis
    proof cases
      case testid
      then obtain t where t: "?tid = Some t"
        using truthyE by blast
      have tt: "truthy (Some t)"
        using testid t by simp
      show ?thesis
        by (subst generateBestLocator.simps, subst selectStrategy.simps)
           (simp add: Some Let_def t tt formatLocator_render[of framework TestId t NoOptions, unfolded methodOf_def optionsOf_def, simplified])
    next
      case rolename
      show ?thesis
        by (subst generateBestLocator.simps, subst selectStrategy.simps)
           (simp add: Some Let_def rolename
              roleSegment_render[of framework ?role "NameExact ?acc", unfolded optionsOf_def, simplified])
    next
      case placeholder
      then obtain t where t: "?ph = Some t"
        using truthyE by blast
      have tt: "truthy (Some t)"
        using placeholder(3) t by simp
      show ?thesis
        by (subst generateBestLocator.simps, subst selectStrategy.simps)
           (simp add: Some Let_def placeholder(1,2) t tt
              formatLocator_render[of framework Placeholder t ExactOnly, unfolded methodOf_def optionsOf_def, simplified])
    next
      case alt
      then obtain t where t: "?alt = Some t"
        using truthyE by blast
      have tt: "truthy (Some t)"
        using alt(4) t by simp
      show ?thesis
        by (subst generateBestLocator.simps, subst selectStrategy.simps)
           (simp add: Some Let_def alt(1,2,3) t tt
              formatLocator_render[of framework AltText t ExactOnly, unfolded methodOf_def optionsOf_def, simplified])
    next
      case bytext
      have nr: "\<not> jsTruthy ?role"
        using bytext(2,5) by simp
      show ?thesis
        by (subst generateBestLocator.simps, subst selectStrategy.simps)
           (simp add: Some Let_def bytext nr
              formatLocator_render[of framework Text ?acc ExactOnly, unfolded methodOf_def optionsOf_def, simplified])
    next
      case role
      show ?thesis
        by (subst generateBestLocator.simps, subst selectStrategy.simps)
           (simp add: Some Let_def role
              roleSegment_render[of framework ?role NoOptions, unfolded optionsOf_def, simplified])
    next
      case chain
      show ?thesis
        by (subst generateBestLocator.simps, subst selectStrategy.simps)
           (simp add: Some Let_def chain loop render_def renderSegment_def split: option.splits sum.splits)
    qed
  qed
qed

text \<open>
  The second \<open>span\<close> below the container with test id \<open>box\<close> gets the same
  two-segment expression in both dialects.
\<close>

lemma chained_span_in_both_dialects:
  \<open>selectStrategy fragmentEngine chainedPage [1, 0, 0]
      = Inr ([Semantic TestId ''box'' NoOptions, Structural ''span.foo.bar:nth-of-type(2)''], NoWarning)
   \<and> generateBestLocator fragmentEngine chainedPage [1, 0, 0] ''pytest''
      = Inr ''page.get_by_test_id("box").locator("span.foo.bar:nth-of-type(2)")''
   \<and> generateBestLocator fragmentEngine chainedPage [1, 0, 0] ''js''
      = Inr ''page.getByTestId("box").locator("span.foo.bar:nth-of-type(2)")''\<close>
proof -
  let ?ex = "([Semantic TestId ''box'' NoOptions, Structural ''span.foo.bar:nth-of-type(2)''], NoWarning)"
  have s: "selectStrategy fragmentEngine chainedPage [1, 0, 0] = Inr ?ex"
    by code_simp
  have r1: \<open>render ''pytest'' ?ex = ''page.get_by_test_id("box").locator("span.foo.bar:nth-of-type(2)")''\<close>
    by code_simp
  have r2: \<open>render ''js'' ?ex = ''page.getByTestId("box").locator("span.foo.bar:nth-of-type(2)")''\<close>
    by code_simp
  show ?thesis
    using generateBestLocator_renders_strategy[of fragmentEngine chainedPage "[1, 0, 0]" "''pytest''"]
          generateBestLocator_renders_strategy[of fragmentEngine chainedPage "[1, 0, 0]" "''js''"] s r1 r2
    by simp
qed

subsection \<open>Where the two runs do not both return\<close>

text \<open>
  In the legacy script the pattern of \<open>formatChainedLocator\<close> matches the
  JavaScript rendering of a semantic child only: the Python rendering of a method
  name does not start with \<open>getBy\<close>.
\<close>

lemma matchChild_getBy: "matchChild s = Some m \<Longrightarrow> prefix ''getBy'' s"
  by (simp add: matchChild_def split: if_splits)

lemma formatChainedLocator_matched:
  assumes "matchChild c = Some m" and "\<not> prefix ''page.'' c"
  shows "\<exists>e. formatChainedLocator jsonParse framework parent c = Inl e"
proof -
  have g: "prefix ''getBy'' c"
    using matchChild_getBy[OF assms(1)] .
  have l: "\<not> prefix ''locator(\"'' c"
  proof
    assume "prefix ''locator(\"'' c"
    then obtain r where "c = ''locator(\"'' @ r"
      by (auto simp: prefix_def)
    then show False
      using g by simp
  qed
  obtain g1 g2 g3 where m: "m = (g1, g2, g3)"
    by (cases m) auto
  show ?thesis
    using assms l unfolding formatChainedLocator_def Let_def m
    by (auto split: option.splits)
qed

text \<open>
  C9, the code at the failing inputs. In content.js, for the \<open>body\<close> of a page
  with 120 characters of text neither run returns: both raise a \<open>TypeError\<close>. In the
  legacy script, for a child with test id \<open>go\<close> below a container with test id
  \<open>box\<close>, \<open>formatChainedLocator\<close> returns the chained locator in the Python
  dialect and raises a \<open>ReferenceError\<close> in the JavaScript dialect; the same happens
  for a child button named \<open>Go\<close>, whose options are parsed first.
\<close>

theorem dialect_runs_do_not_both_return:
  \<open>generateBestLocator fragmentEngine longTextPage [0] ''pytest'' = Inl TypeError
   \<and> generateBestLocator fragmentEngine longTextPage [0] ''js'' = Inl TypeError
   \<and> formatLocator_legacy ''pytest'' ''getByTestId'' ''box'' None = Inr ''page.get_by_test_id("box")''
   \<and> formatLocator_legacy ''pytest'' ''getByTestId'' ''go'' None = Inr ''page.get_by_test_id("go")''
   \<and> formatChainedLocator (\<lambda>text. None) ''pytest'' ''page.get_by_test_id("box")'' ''get_by_test_id("go")''
       = Inr ''page.get_by_test_id("box").get_by_test_id("go")''
   \<and> formatLocator_legacy ''js'' ''getByTestId'' ''box'' None = Inr ''page.getByTestId("box")''
   \<and> formatLocator_legacy ''js'' ''getByTestId'' ''go'' None = Inr ''page.getByTestId("go")''
   \<and> formatChainedLocator (\<lambda>text. None) ''js'' ''page.getByTestId("box")'' ''getByTestId("go")''
       = Inl ReferenceError
   \<and> formatLocator_legacy ''pytest'' ''getByRole'' ''button'' (Some [(''name'', OStr ''Go''), (''exact'', OBool True)])
       = Inr ''page.get_by_role("button", name="Go", exact=true)''
   \<and> formatChainedLocator (\<lambda>text. None) ''pytest'' ''page.get_by_test_id("box")''
         ''get_by_role("button", name="Go", exact=true)''
       = Inr ''page.get_by_test_id("box").get_by_role("button", name="Go", exact=true)''
   \<and> formatLocator_legacy ''js'' ''getByRole'' ''button'' (Some [(''name'', OStr ''Go''), (''exact'', OBool True)])
       = Inr ''page.getByRole("button", name: "Go", exact: true)''
   \<and> formatChainedLocator
         (\<lambda>text. if text = ''{"name":"Go", "exact":true}''
                  then Some [(''name'', JStr ''Go''), (''exact'', JBool True)] else None)
         ''js'' ''page.getByTestId("box")'' ''getByRole("button", name: "Go", exact: true)''
       = Inl ReferenceError\<close>
  by code_simp

section \<open>Synthesis followed by verification\<close>

subsection \<open>The verifier's parsers on a test-id locator\<close>















subsection \<open>Clearing the highlights keeps addresses, test ids and visibility\<close>

lemma updateKids_length [simp]: "length (updateKids f p i ks) = length ks"
  by (induction ks arbitrary: i) auto
















subsection \<open>The round trip\<close>




end
